theory Spec2Isabelle
  imports Main "HOL-Library.Word"
begin

unbundle bit_operations_syntax

section \<open>Data model of the wire protocol (transport/vless/protocol.go)\<close>

type_synonym byte = "8 word"

text \<open>
  Go values of type \<open>[]byte\<close> and \<open>string\<close> are byte sequences; both are lists of bytes
  here.  A \<open>[]byte\<close> that may be \<open>nil\<close> is a \<open>byte list option\<close>: \<open>None\<close> is the nil slice
  and \<open>Some []\<close> the empty, non-nil one.
\<close>

text \<open>
  Errors of the source are values.  \<open>E_New\<close> is \<open>E.New\<close> of a message, \<open>E_NewByte\<close> a
  message that ends in a formatted byte, \<open>E_NewErr\<close> a message that wraps a cause.
  \<open>External\<close> stands for an error returned by a collaborator of another module and
  \<open>Panic\<close> for a run-time panic.
\<close>

datatype error =
    EOF
  | ErrUnexpectedEOF
  | ErrOverflow
  | E_New string
  | E_NewByte string byte
  | E_NewErr string error
  | External nat
  | Panic string

definition Version :: byte where
  "Version = 0"

definition CommandTCP :: byte where
  "CommandTCP = 1"

definition CommandUDP :: byte where
  "CommandUDP = 2"

definition CommandMux :: byte where
  "CommandMux = 3"

text \<open>
  \<open>M.Socksaddr\<close> of the metadata library: an IP address (possibly the invalid zero
  address), a port and a domain name (a Go string: its bytes).
\<close>

datatype netip_Addr = NoAddr | IPv4 "32 word" | IPv6 "128 word"

record Socksaddr =
  Addr :: netip_Addr
  Port :: "16 word"
  Fqdn :: "byte list"

definition Socksaddr_zero :: Socksaddr where
  "Socksaddr_zero = \<lparr>Addr = NoAddr, Port = 0, Fqdn = []\<rparr>"

text \<open>\<open>UUID\<close> is a \<open>[16]byte\<close>: a list of bytes that the type keeps at length 16.\<close>

record Request =
  UUID :: "byte list"
  Command :: byte
  Destination :: Socksaddr
  Flow :: "byte list"
  VPPLDestAddr :: "byte list option"

record Addons =
  Addons_Flow :: "byte list"
  VPPLDestination :: "byte list option"

text \<open>
  \<open>vmess.AddressSerializer\<close> belongs to another module.  Its three operations are
  parameters of the model: \<open>WriteAddrPort\<close> yields the bytes it appends to the buffer or
  an error, \<open>AddrPortLen\<close> the length it announces, \<open>ReadAddrPort\<close> the address it
  reads and the rest of the stream.
\<close>

record AddressSerializer =
  WriteAddrPort :: "Socksaddr \<Rightarrow> error + byte list"
  AddrPortLen :: "Socksaddr \<Rightarrow> nat"
  ReadAddrPort :: "byte list \<Rightarrow> error + (Socksaddr \<times> byte list)"

subsection \<open>Variable-length integers\<close>

text \<open>\<open>rw.UVariantLen\<close>: the switch over \<open>x < 1 << (7 * k)\<close>.\<close>

definition UVariantLen :: "64 word \<Rightarrow> nat" where
  "UVariantLen x =
     (if x < push_bit (7 * 1) 1 then 1
      else if x < push_bit (7 * 2) 1 then 2
      else if x < push_bit (7 * 3) 1 then 3
      else if x < push_bit (7 * 4) 1 then 4
      else if x < push_bit (7 * 5) 1 then 5
      else if x < push_bit (7 * 6) 1 then 6
      else if x < push_bit (7 * 7) 1 then 7
      else if x < push_bit (7 * 8) 1 then 8
      else if x < push_bit (7 * 9) 1 then 9
      else 10)"

text \<open>\<open>binary.PutUvarint\<close>: the bytes it stores, low seven bits first.\<close>

function PutUvarint :: "64 word \<Rightarrow> byte list" where
  "PutUvarint x =
     (if x \<ge> 0x80 then (ucast x OR 0x80) # PutUvarint (drop_bit 7 x) else [ucast x])"
  by pat_completeness auto
termination
proof (relation "measure unat")
  show "wf (measure unat)" by simp
next
  fix x :: "64 word"
  assume "0x80 \<le> x"
  then have "128 \<le> unat x" by (simp add: word_le_nat_alt)
  then have less: "unat x div 128 < unat x" by simp
  have "unat (drop_bit 7 x) = drop_bit 7 (unat x)" by (rule unat_drop_bit_eq)
  also have "\<dots> = unat x div 2 ^ 7" by (rule drop_bit_eq_div)
  finally have "unat (drop_bit 7 x) = unat x div 128" by simp
  with less have "unat (drop_bit 7 x) < unat x" by (simp only:)
  then show "(drop_bit 7 x, x) \<in> measure unat" by (simp only: in_measure)
qed

declare PutUvarint.simps [simp del]

text \<open>
  \<open>binary.PutUvarint(buffer.Extend(n), x)\<close>: the buffer grows by \<open>n\<close> bytes and
  \<open>PutUvarint\<close> stores into them; storing beyond the \<open>n\<close> bytes panics, and bytes it
  does not reach keep what the buffer held (shown as zero).
\<close>

definition Extend_PutUvarint :: "nat \<Rightarrow> 64 word \<Rightarrow> error + byte list" where
  "Extend_PutUvarint n x =
     (let bs = PutUvarint x
      in if n < length bs then Inl (Panic ''index out of range'')
         else Inr (bs @ replicate (n - length bs) 0))"

text \<open>
  \<open>binary.ReadUvarint\<close>, which \<open>rw.ReadUVariant\<close> calls: the loop over at most ten
  bytes, with \<open>i\<close> the index, \<open>x\<close> the value so far and \<open>s\<close> the shift.
\<close>

fun ReadUvarint_loop :: "nat \<Rightarrow> 64 word \<Rightarrow> nat \<Rightarrow> byte list \<Rightarrow> error + (64 word \<times> byte list)" where
  "ReadUvarint_loop i x s [] =
     (if i < 10 then Inl (if i > 0 then ErrUnexpectedEOF else EOF) else Inl ErrOverflow)"
| "ReadUvarint_loop i x s (b # r) =
     (if i < 10 then
        (if b < 0x80 then
           (if i = 9 \<and> b > 1 then Inl ErrOverflow
            else Inr (x OR push_bit s (ucast b), r))
         else ReadUvarint_loop (i + 1) (x OR push_bit s (ucast (b AND 0x7f))) (s + 7) r)
      else Inl ErrOverflow)"

definition rw_ReadUVariant :: "byte list \<Rightarrow> error + (64 word \<times> byte list)" where
  "rw_ReadUVariant r = ReadUvarint_loop 0 0 0 r"

subsection \<open>Reading from a stream\<close>

text \<open>
  An \<open>io.Reader\<close> is the list of bytes it will still deliver; a successful read returns
  what was read together with the rest of the stream.
\<close>

definition rw_ReadByte :: "byte list \<Rightarrow> error + (byte \<times> byte list)" where
  "rw_ReadByte r = (case r of [] \<Rightarrow> Inl EOF | b # r' \<Rightarrow> Inr (b, r'))"

text \<open>\<open>binary.Read(reader, binary.BigEndian, &b)\<close> for a single byte \<open>b\<close>.\<close>

definition binary_Read_uint8 :: "byte list \<Rightarrow> error + (byte \<times> byte list)" where
  "binary_Read_uint8 r = (case r of [] \<Rightarrow> Inl EOF | b # r' \<Rightarrow> Inr (b, r'))"

definition io_ReadFull :: "nat \<Rightarrow> byte list \<Rightarrow> error + (byte list \<times> byte list)" where
  "io_ReadFull n r =
     (if n = 0 then Inr ([], r)
      else if r = [] then Inl EOF
      else if length r < n then Inl ErrUnexpectedEOF
      else Inr (take n r, drop n r))"

text \<open>\<open>rw.ReadBytes(reader, size)\<close> allocates \<open>size\<close> bytes, which panics for a negative
  \<open>size\<close>, and fills them with \<open>io.ReadFull\<close>.\<close>

definition rw_ReadBytes :: "int \<Rightarrow> byte list \<Rightarrow> error + (byte list \<times> byte list)" where
  "rw_ReadBytes sz r =
     (if sz < 0 then Inl (Panic ''makeslice: len out of range'')
      else io_ReadFull (nat sz) r)"

text \<open>\<open>rw.SkipN(reader, size)\<close> copies exactly \<open>size\<close> bytes to a discarding writer.\<close>

definition rw_SkipN :: "nat \<Rightarrow> byte list \<Rightarrow> error + byte list" where
  "rw_SkipN sz r = (if length r < sz then Inl EOF else Inr (drop sz r))"

subsection \<open>ReadResponse\<close>

definition ReadResponse :: "byte list \<Rightarrow> error + byte list" where
  "ReadResponse reader =
     (case rw_ReadByte reader of
        Inl err \<Rightarrow> Inl err
      | Inr (version, r1) \<Rightarrow>
          if version \<noteq> Version then Inl (E_NewByte ''unknown version: '' version)
          else (case rw_ReadByte r1 of
                  Inl err \<Rightarrow> Inl err
                | Inr (protobufLength, r2) \<Rightarrow>
                    if protobufLength > 0 then
                      (case rw_SkipN (unat protobufLength) r2 of
                         Inl err \<Rightarrow> Inl err
                       | Inr r3 \<Rightarrow> Inr r3)
                    else Inr r2))"

subsection \<open>Request lengths\<close>

text \<open>Lengths are Go \<open>int\<close>s that never go negative here: natural numbers.
  \<open>uint64(n)\<close> of a length is \<open>of_nat n\<close>.\<close>

definition RequestAddonLen :: "Request \<Rightarrow> nat" where
  "RequestAddonLen request =
     (if Flow request \<noteq> [] \<or> VPPLDestAddr request \<noteq> None then
        2 + UVariantLen (of_nat (length (Flow request)))
          + (if Flow request \<noteq> [] then length (Flow request) else 0)
          + (case VPPLDestAddr request of
               Some d \<Rightarrow> UVariantLen (of_nat (length d)) + length d
             | None \<Rightarrow> UVariantLen 0)
      else 0)"

definition RequestLen :: "AddressSerializer \<Rightarrow> Request \<Rightarrow> nat" where
  "RequestLen ser request =
     (let addonsLen = RequestAddonLen request;
          requestLen = 1 + 16 + UVariantLen (of_nat addonsLen) + addonsLen + 1
      in if Command request \<noteq> CommandMux
         then requestLen + AddrPortLen ser (Destination request)
         else requestLen)"

subsection \<open>EncodeRequest and WriteRequest\<close>

text \<open>
  The buffer is the list of bytes written to it so far.  \<open>EncodeRequest_addons\<close> is the
  body of \<open>if addonsLen > 0\<close> in \<open>EncodeRequest\<close>: tag 10, the flow's length and bytes,
  tag 18, the obfuscated destination's length and bytes, or one zero byte for a nil one.
\<close>

definition EncodeRequest_addons :: "Request \<Rightarrow> byte list \<Rightarrow> error + byte list" where
  "EncodeRequest_addons request buffer =
     (case Extend_PutUvarint (UVariantLen (of_nat (length (Flow request))))
             (of_nat (length (Flow request))) of
        Inl e \<Rightarrow> Inl e
      | Inr flowLen \<Rightarrow>
          (let buffer1 = buffer @ [10] @ flowLen
                 @ (if length (Flow request) > 0 then Flow request else []) @ [18]
           in case VPPLDestAddr request of
                Some d \<Rightarrow>
                  (case Extend_PutUvarint (UVariantLen (of_nat (length d))) (of_nat (length d)) of
                     Inl e \<Rightarrow> Inl e
                   | Inr destLen \<Rightarrow> Inr (buffer1 @ destLen @ d))
              | None \<Rightarrow>
                  (case Extend_PutUvarint 1 0 of
                     Inl e \<Rightarrow> Inl e
                   | Inr zero \<Rightarrow> Inr (buffer1 @ zero))))"

definition EncodeRequest :: "AddressSerializer \<Rightarrow> Request \<Rightarrow> byte list \<Rightarrow> error + byte list" where
  "EncodeRequest ser request buffer =
     (let addonsLen = RequestAddonLen request;
          buffer1 = buffer @ [Version] @ UUID request
      in case Extend_PutUvarint (UVariantLen (of_nat addonsLen)) (of_nat addonsLen) of
           Inl e \<Rightarrow> Inl e
         | Inr lenBytes \<Rightarrow>
             (case (if addonsLen > 0 then EncodeRequest_addons request (buffer1 @ lenBytes)
                    else Inr (buffer1 @ lenBytes)) of
                Inl e \<Rightarrow> Inl e
              | Inr buffer2 \<Rightarrow>
                  (let buffer3 = buffer2 @ [Command request]
                   in if Command request \<noteq> CommandMux then
                        (case WriteAddrPort ser (Destination request) of
                           Inl err \<Rightarrow> Inl err
                         | Inr addr \<Rightarrow> Inr (buffer3 @ addr))
                      else Inr buffer3)))"

text \<open>
  \<open>WriteRequest\<close> allocates a buffer of capacity \<open>RequestLen(request) + len(payload)\<close>,
  encodes into it, appends the payload and hands the buffer to the writer in one write.
  The writer is the list of bytes written to it; the result is the writer afterwards.
\<close>

definition WriteRequest :: "AddressSerializer \<Rightarrow> byte list \<Rightarrow> Request \<Rightarrow> byte list \<Rightarrow> error + byte list" where
  "WriteRequest ser writer request payload =
     (case EncodeRequest ser request [] of
        Inl err \<Rightarrow> Inl err
      | Inr buffer \<Rightarrow> Inr (writer @ (buffer @ payload)))"

subsection \<open>WritePacketRequest\<close>

text \<open>\<open>binary.Write(buffer, binary.BigEndian, uint16(n))\<close>: high byte, then low byte.\<close>

definition BigEndian_uint16 :: "16 word \<Rightarrow> byte list" where
  "BigEndian_uint16 v = [ucast (drop_bit 8 v), ucast v]"

definition WritePacketRequest :: "AddressSerializer \<Rightarrow> byte list \<Rightarrow> Request \<Rightarrow> byte list \<Rightarrow> error + byte list" where
  "WritePacketRequest ser writer request payload =
     (let addonsLen = (0 :: nat);
          buffer = [Version] @ UUID request @ [of_nat addonsLen]
      in case (if addonsLen > 0 then
                 (case Extend_PutUvarint (UVariantLen (of_nat (length (Flow request))))
                         (of_nat (length (Flow request))) of
                    Inl e \<Rightarrow> Inl e
                  | Inr flowLen \<Rightarrow> Inr (buffer @ [10] @ flowLen @ Flow request))
               else Inr buffer) of
           Inl e \<Rightarrow> Inl e
         | Inr buffer1 \<Rightarrow>
             (case WriteAddrPort ser (Destination request) of
                Inl err \<Rightarrow> Inl err
              | Inr addr \<Rightarrow>
                  (let buffer2 = buffer1 @ [CommandUDP] @ addr;
                       buffer3 = (if length payload > 0
                                  then buffer2 @ BigEndian_uint16 (of_nat (length payload)) @ payload
                                  else buffer2)
                   in Inr (writer @ buffer3))))"

subsection \<open>readAddons and ReadRequest\<close>

text \<open>\<open>int(n)\<close> of a \<open>uint64\<close> is its two's complement reading, \<open>sint\<close>.\<close>

definition readAddons :: "byte list \<Rightarrow> error + Addons" where
  "readAddons reader =
     (case rw_ReadByte reader of
        Inl err \<Rightarrow> Inl err
      | Inr (protoHeader, r1) \<Rightarrow>
          if protoHeader \<noteq> 10 then Inl (E_NewByte ''unknown protobuf message header: '' protoHeader)
          else
            (let addons = \<lparr>Addons_Flow = [], VPPLDestination = None\<rparr>
             in case rw_ReadUVariant r1 of
                  Inl err \<Rightarrow> if err = EOF then Inr addons else Inl err
                | Inr (flowLen, r2) \<Rightarrow>
                    (case rw_ReadBytes (sint flowLen) r2 of
                       Inl err \<Rightarrow> Inl err
                     | Inr (flowBytes, r3) \<Rightarrow>
                         (let addons1 = addons\<lparr>Addons_Flow := flowBytes\<rparr>
                          in case rw_ReadByte r3 of
                               Inl err \<Rightarrow> if err = EOF then Inr addons1 else Inl err
                             | Inr (protoHeader2, r4) \<Rightarrow>
                                 if protoHeader2 \<noteq> 18
                                 then Inl (E_NewByte ''unknown protobuf message header: '' protoHeader2)
                                 else
                                   (case rw_ReadUVariant r4 of
                                      Inl err \<Rightarrow> Inl err
                                    | Inr (VPPLDestinationLen, r5) \<Rightarrow>
                                        (case rw_ReadBytes (sint VPPLDestinationLen) r5 of
                                           Inl err \<Rightarrow>
                                             Inl (E_NewErr ''can't read bytes of VPPL Destination: '' err)
                                         | Inr (VPPLDestinationBytes, r6) \<Rightarrow>
                                             Inr (addons1\<lparr>VPPLDestination :=
                                                    Some VPPLDestinationBytes\<rparr>)))))))"

text \<open>The part of \<open>ReadRequest\<close> after the optional block: the command byte and, unless
  the command is MUX, the destination.\<close>

definition ReadRequest_command :: "AddressSerializer \<Rightarrow> Request \<Rightarrow> byte list \<Rightarrow> error + (Request \<times> byte list)" where
  "ReadRequest_command ser request reader =
     (case binary_Read_uint8 reader of
        Inl err \<Rightarrow> Inl (E_NewErr ''can't read command: '' err)
      | Inr (c, r1) \<Rightarrow>
          (let request1 = request\<lparr>Command := c\<rparr>
           in if Command request1 \<noteq> CommandMux then
                (case ReadAddrPort ser r1 of
                   Inl err \<Rightarrow> Inl (E_NewErr ''can't serialize vmess address: '' err)
                 | Inr (dest, r2) \<Rightarrow> Inr (request1\<lparr>Destination := dest\<rparr>, r2))
              else Inr (request1, r1)))"

definition ReadRequest :: "AddressSerializer \<Rightarrow> byte list \<Rightarrow> error + (Request \<times> byte list)" where
  "ReadRequest ser reader =
     (let request = \<lparr>UUID = replicate 16 0, Command = 0, Destination = Socksaddr_zero,
                       Flow = [], VPPLDestAddr = None\<rparr>
      in case binary_Read_uint8 reader of
           Inl err \<Rightarrow> Inl (E_NewErr ''can't read version: '' err)
         | Inr (version, r1) \<Rightarrow>
             if version \<noteq> Version then Inl (E_NewByte ''unknown version: '' version)
             else
               (case io_ReadFull 16 r1 of
                  Inl err \<Rightarrow> Inl (E_NewErr ''can't read UUID: '' err)
                | Inr (uuid, r2) \<Rightarrow>
                    (let request1 = request\<lparr>UUID := uuid\<rparr>
                     in case rw_ReadUVariant r2 of
                          Inl err \<Rightarrow> Inl (E_NewErr ''can't read addons len: '' err)
                        | Inr (addonsLen, r3) \<Rightarrow>
                            if addonsLen > 0 then
                              (case rw_ReadBytes (sint addonsLen) r3 of
                                 Inl err \<Rightarrow> Inl (E_NewErr ''can't read addons: '' err)
                               | Inr (addonsBytes, r4) \<Rightarrow>
                                   (case readAddons addonsBytes of
                                      Inl err \<Rightarrow> Inl (E_NewErr ''can't parse addons: '' err)
                                    | Inr addons \<Rightarrow>
                                        ReadRequest_command ser
                                          (request1\<lparr>Flow := Addons_Flow addons,
                                             VPPLDestAddr := VPPLDestination addons\<rparr>) r4))
                            else ReadRequest_command ser request1 r3)))"

subsection \<open>The bytes of an encoded request\<close>

text \<open>
  The optional block and the request header as byte sequences, for stating what
  \<open>EncodeRequest\<close> writes.
\<close>

definition addons_bytes :: "Request \<Rightarrow> byte list" where
  "addons_bytes r =
     [10] @ PutUvarint (of_nat (length (Flow r))) @ Flow r @ [18]
       @ (case VPPLDestAddr r of
            Some d \<Rightarrow> PutUvarint (of_nat (length d)) @ d
          | None \<Rightarrow> [0])"

definition request_bytes :: "Request \<Rightarrow> byte list" where
  "request_bytes r =
     [Version] @ UUID r @ PutUvarint (of_nat (RequestAddonLen r))
       @ (if 0 < RequestAddonLen r then addons_bytes r else []) @ [Command r]"

subsection \<open>An address serializer to evaluate with\<close>

text \<open>
  An instance of the serializer's interface for evaluating the model on concrete
  requests: port, then a type byte, then four bytes of an IPv4 address or a
  length-prefixed domain name.  IPv6 addresses are refused.
\<close>

definition sample_WriteAddrPort :: "Socksaddr \<Rightarrow> error + byte list" where
  "sample_WriteAddrPort d =
     (case Addr d of
        IPv4 a \<Rightarrow> Inr (BigEndian_uint16 (Port d) @ [1]
                   @ [ucast (drop_bit 24 a), ucast (drop_bit 16 a), ucast (drop_bit 8 a), ucast a])
      | IPv6 a \<Rightarrow> Inl (External 0)
      | NoAddr \<Rightarrow>
          if 255 < length (Fqdn d) then Inl (External 1)
          else Inr (BigEndian_uint16 (Port d) @ [2] @ [of_nat (length (Fqdn d))] @ Fqdn d))"

definition sample_AddrPortLen :: "Socksaddr \<Rightarrow> nat" where
  "sample_AddrPortLen d =
     (case Addr d of IPv4 a \<Rightarrow> 7 | IPv6 a \<Rightarrow> 19 | NoAddr \<Rightarrow> 4 + length (Fqdn d))"

definition sample_ReadAddrPort :: "byte list \<Rightarrow> error + (Socksaddr \<times> byte list)" where
  "sample_ReadAddrPort r =
     (case r of
        p1 # p0 # t # r1 \<Rightarrow>
          (let port = push_bit 8 (ucast p1) OR ucast p0
           in if t = 1 then
                (case r1 of
                   a3 # a2 # a1 # a0 # r2 \<Rightarrow>
                     Inr (\<lparr>Addr = IPv4 (push_bit 24 (ucast a3) OR push_bit 16 (ucast a2)
                                          OR push_bit 8 (ucast a1) OR ucast a0),
                           Port = port, Fqdn = []\<rparr>, r2)
                 | _ \<Rightarrow> Inl ErrUnexpectedEOF)
              else if t = 2 then
                (case r1 of
                   n # r2 \<Rightarrow>
                     if length r2 < unat n then Inl ErrUnexpectedEOF
                     else Inr (\<lparr>Addr = NoAddr, Port = port, Fqdn = take (unat n) r2\<rparr>,
                               drop (unat n) r2)
                 | [] \<Rightarrow> Inl ErrUnexpectedEOF)
              else Inl (External 2))
      | _ \<Rightarrow> Inl ErrUnexpectedEOF)"

definition sample_AddressSerializer :: AddressSerializer where
  "sample_AddressSerializer =
     \<lparr>WriteAddrPort = sample_WriteAddrPort, AddrPortLen = sample_AddrPortLen,
      ReadAddrPort = sample_ReadAddrPort\<rparr>"

definition sample_UUID :: "byte list" where
  "sample_UUID = [1, 2, 3, 4, 5, 6, 7, 8, 9, 10, 11, 12, 13, 14, 15, 16]"

definition sample_Destination :: Socksaddr where
  "sample_Destination = \<lparr>Addr = IPv4 0x0A000001, Port = 443, Fqdn = []\<rparr>"

definition FlowVision :: "byte list" where
  "FlowVision = [0x78, 0x74, 0x6C, 0x73, 0x2D, 0x72, 0x70, 0x72, 0x78, 0x2D, 0x76, 0x69, 0x73, 0x69, 0x6F, 0x6E]"

definition sample_Request :: Request where
  "sample_Request =
     \<lparr>UUID = sample_UUID, Command = CommandTCP, Destination = sample_Destination,
      Flow = FlowVision, VPPLDestAddr = None\<rparr>"

text \<open>The number that a sequence of bytes denotes, most significant byte first.\<close>

definition BigEndian_value :: "byte list \<Rightarrow> nat" where
  "BigEndian_value bs = foldl (\<lambda>acc b. 256 * acc + unat b) 0 bs"

definition long_payload :: "byte list" where
  "long_payload = replicate 65536 0xAB"

definition anchor_Request :: Request where
  "anchor_Request =
     \<lparr>UUID = sample_UUID, Command = CommandTCP, Destination = sample_Destination,
      Flow = [], VPPLDestAddr = Some [0xDE, 0xAD, 0xBE, 0xEF]\<rparr>"

section \<open>The outbound adapter (outbound/vless.go)\<close>

subsection \<open>Options and the adapter\<close>

text \<open>
  Values of other modules that the adapter only stores or hands on are opaque handles.
  Field names are the source's, except where two structures share one: the options'
  \<open>VPPL_Enabled\<close>, \<open>VPPL_Key\<close>, \<open>VPPL_Proxy\<close>, \<open>VPPL_Host\<close>, \<open>VPPL_Port\<close>,
  \<open>Options_UUID\<close>, \<open>Options_Flow\<close>, \<open>Dialer_Options\<close> and \<open>Transport_Options\<close>.
\<close>

type_synonym DialerOptions = nat
type_synonym TLSOptions = nat
type_synonym MultiplexOptions = nat
type_synonym TransportOptions = nat
type_synonym Dialer = nat
type_synonym TLSConfig = nat
type_synonym Transport = nat
type_synonym MuxClient = nat
type_synonym Client = nat

datatype rsa_PublicKey = rsa_PublicKey nat nat

text \<open>What \<open>x509.ParsePKIXPublicKey\<close> returns: a key of some algorithm.\<close>

datatype any_PublicKey = RSA_key rsa_PublicKey | Other_key

text \<open>\<open>option.VPPLOutboundOptions\<close>, with the embedded \<open>VPPLOptions\<close>.\<close>

record VPPLOutboundOptions =
  VPPL_Enabled :: bool
  VPPL_PathToKey :: string
  VPPL_Key :: string
  VPPL_Proxy :: bool
  VPPL_Host :: string
  VPPL_Port :: int

record VLESSOutboundOptions =
  Dialer_Options :: DialerOptions
  Server :: string
  ServerPort :: "16 word"
  Options_UUID :: string
  Options_Flow :: string
  Network :: "string list"
  TLS :: "TLSOptions option"
  Multiplex :: "MultiplexOptions option"
  Transport_Options :: "TransportOptions option"
  PacketEncoding :: "string option"
  VPPL :: VPPLOutboundOptions

record VLESSVPPL =
  Enabled :: bool
  Proxy :: bool
  Address :: Socksaddr
  Key :: "rsa_PublicKey option"

text \<open>\<open>myOutboundAdapter\<close>; its router and logger are not modelled.\<close>

record myOutboundAdapter =
  protocol :: string
  network :: "string list"
  tag :: string
  dependencies :: "string list"

record VLESS =
  adapter :: myOutboundAdapter
  dialer :: Dialer
  client :: "Client option"
  serverAddr :: Socksaddr
  multiplexDialer :: "MuxClient option"
  tlsConfig :: "TLSConfig option"
  transport :: "Transport option"
  packetAddr :: bool
  xudp :: bool
  vppl :: VLESSVPPL
  originDest :: "byte list option"

subsection \<open>NewVLESS\<close>

text \<open>
  The constructors and parsers of other modules that \<open>NewVLESS\<close> calls are parameters.
  \<open>pem_Decode\<close> yields the bytes of the decoded block, or \<open>None\<close> for the nil block
  that \<open>pem.Decode\<close> returns when it finds no PEM data.
\<close>

record NewEnv =
  dialer_New :: "DialerOptions \<Rightarrow> error + Dialer"
  Network_Build :: "string list \<Rightarrow> string list"
  withDialerDependency :: "DialerOptions \<Rightarrow> string list"
  M_ParseSocksaddrHostPort :: "string \<Rightarrow> 16 word \<Rightarrow> Socksaddr"
  pem_Decode :: "string \<Rightarrow> byte list option"
  x509_ParsePKIXPublicKey :: "byte list \<Rightarrow> error + any_PublicKey"
  tls_NewClient :: "string \<Rightarrow> TLSOptions \<Rightarrow> error + TLSConfig"
  v2ray_NewClientTransport ::
    "Dialer \<Rightarrow> Socksaddr \<Rightarrow> TransportOptions \<Rightarrow> TLSConfig option \<Rightarrow> error + Transport"
  vless_NewClient :: "string \<Rightarrow> string \<Rightarrow> error + Client"
  mux_NewClientWithOptions :: "MultiplexOptions option \<Rightarrow> error + MuxClient option"

text \<open>\<open>VLESSServerOptions.Build\<close>.\<close>

definition VLESSServerOptions_Build :: "NewEnv \<Rightarrow> VLESSOutboundOptions \<Rightarrow> Socksaddr" where
  "VLESSServerOptions_Build env options = M_ParseSocksaddrHostPort env (Server options) (ServerPort options)"

text \<open>The block \<open>if options.VPPL.Enabled\<close> of \<open>NewVLESS\<close>; \<open>uint16(port)\<close> of an
  \<open>int\<close> keeps its low 16 bits.\<close>

definition NewVLESS_vppl :: "NewEnv \<Rightarrow> VLESSOutboundOptions \<Rightarrow> VLESS \<Rightarrow> error + VLESS" where
  "NewVLESS_vppl env options outbound =
     (if VPPL_Enabled (VPPL options) then
        (let outbound1 = outbound\<lparr>vppl := \<lparr>Enabled = True, Proxy = VPPL_Proxy (VPPL options),
                                              Address = Socksaddr_zero, Key = None\<rparr>\<rparr>
         in if \<not> VPPL_Proxy (VPPL options) then
              (if length (VPPL_Key (VPPL options)) = 0 then Inl (E_New ''VPPL: no public key'')
               else
                 (case pem_Decode env (''-----BEGIN PUBLIC KEY-----'' @ [CHR 0x0A]
                                        @ VPPL_Key (VPPL options) @ [CHR 0x0A]
                                        @ ''-----END PUBLIC KEY-----'') of
                    None \<Rightarrow> Inl (Panic ''nil pointer dereference'')
                  | Some publicKeyBlock \<Rightarrow>
                      (case x509_ParsePKIXPublicKey env publicKeyBlock of
                         Inl err \<Rightarrow> Inl err
                       | Inr Other_key \<Rightarrow> Inl (Panic ''interface conversion'')
                       | Inr (RSA_key publicKey) \<Rightarrow>
                           Inr (outbound1\<lparr>vppl := (vppl outbound1)
                                  \<lparr>Key := Some publicKey,
                                   Address := M_ParseSocksaddrHostPort env (VPPL_Host (VPPL options))
                                                (word_of_int (VPPL_Port (VPPL options)))\<rparr>\<rparr>))))
            else Inr outbound1)
      else Inr outbound)"

text \<open>The switch over \<open>options.PacketEncoding\<close>.\<close>

definition NewVLESS_packetEncoding :: "VLESSOutboundOptions \<Rightarrow> VLESS \<Rightarrow> error + VLESS" where
  "NewVLESS_packetEncoding options outbound =
     (case PacketEncoding options of
        None \<Rightarrow> Inr (outbound\<lparr>xudp := True\<rparr>)
      | Some enc \<Rightarrow>
          if enc = '''' then Inr outbound
          else if enc = ''packetaddr'' then Inr (outbound\<lparr>packetAddr := True\<rparr>)
          else if enc = ''xudp'' then Inr (outbound\<lparr>xudp := True\<rparr>)
          else Inl (E_New (''unknown packet encoding: '' @ enc)))"

text \<open>The blocks \<open>if options.TLS != nil\<close> and \<open>if options.Transport != nil\<close>.\<close>

definition NewVLESS_tls :: "NewEnv \<Rightarrow> VLESSOutboundOptions \<Rightarrow> VLESS \<Rightarrow> error + VLESS" where
  "NewVLESS_tls env options outbound =
     (case TLS options of
        None \<Rightarrow> Inr outbound
      | Some tlsOptions \<Rightarrow>
          (case tls_NewClient env (Server options) tlsOptions of
             Inl err \<Rightarrow> Inl err
           | Inr config \<Rightarrow> Inr (outbound\<lparr>tlsConfig := Some config\<rparr>)))"

definition NewVLESS_transport :: "NewEnv \<Rightarrow> VLESSOutboundOptions \<Rightarrow> VLESS \<Rightarrow> error + VLESS" where
  "NewVLESS_transport env options outbound =
     (case Transport_Options options of
        None \<Rightarrow> Inr outbound
      | Some transportOptions \<Rightarrow>
          if VPPL_Enabled (VPPL options) then Inl (E_New ''VPPL does not support transport options'')
          else
            (case v2ray_NewClientTransport env (dialer outbound) (serverAddr outbound)
                    transportOptions (tlsConfig outbound) of
               Inl err \<Rightarrow> Inl (E_NewErr ''create client transport: '' err)
             | Inr t \<Rightarrow> Inr (outbound\<lparr>transport := Some t\<rparr>)))"

definition NewVLESS :: "NewEnv \<Rightarrow> string \<Rightarrow> VLESSOutboundOptions \<Rightarrow> error + VLESS" where
  "NewVLESS env tag' options =
     (case dialer_New env (Dialer_Options options) of
        Inl err \<Rightarrow> Inl err
      | Inr outboundDialer \<Rightarrow>
          (let outbound =
                 \<lparr>adapter = \<lparr>protocol = ''vless'', network = Network_Build env (Network options),
                              tag = tag',
                              dependencies = withDialerDependency env (Dialer_Options options)\<rparr>,
                  dialer = outboundDialer, client = None,
                  serverAddr = VLESSServerOptions_Build env options,
                  multiplexDialer = None, tlsConfig = None, transport = None,
                  packetAddr = False, xudp = False,
                  vppl = \<lparr>Enabled = False, Proxy = False, Address = Socksaddr_zero, Key = None\<rparr>,
                  originDest = None\<rparr>
           in case NewVLESS_vppl env options outbound of
                Inl err \<Rightarrow> Inl err
              | Inr outbound1 \<Rightarrow>
                  (case NewVLESS_tls env options outbound1 of
                     Inl err \<Rightarrow> Inl err
                   | Inr outbound2 \<Rightarrow>
                       (case NewVLESS_transport env options outbound2 of
                          Inl err \<Rightarrow> Inl err
                        | Inr outbound3 \<Rightarrow>
                            (case NewVLESS_packetEncoding options outbound3 of
                               Inl err \<Rightarrow> Inl err
                             | Inr outbound4 \<Rightarrow>
                                 (case vless_NewClient env (Options_UUID options) (Options_Flow options) of
                                    Inl err \<Rightarrow> Inl err
                                  | Inr c \<Rightarrow>
                                      (case mux_NewClientWithOptions env (Multiplex options) of
                                         Inl err \<Rightarrow> Inl err
                                       | Inr m \<Rightarrow>
                                           Inr (outbound4\<lparr>client := Some c,
                                                  multiplexDialer := m\<rparr>))))))))"

subsection \<open>Dialing\<close>

text \<open>
  A raw stream (\<open>net.Conn\<close> from the dialer, the transport or the TLS handshake) and the
  connection objects that a dial returns.
\<close>

datatype Conn = Conn nat

datatype NetConn =
    ClientConn nat
  | PacketAddrConn NetConn Socksaddr
  | BindPacketConn NetConn Socksaddr

text \<open>
  The calls a dial makes to the collaborators that open, upgrade, close and use streams,
  in the order they are made.  Logging is not recorded, and neither is the metadata that
  \<open>adapter.AppendContext\<close> attaches to the context.
\<close>

datatype call =
    CallDial Socksaddr
  | CallTransportDial
  | CallTLSHandshake Conn
  | CallClose Conn
  | CallDialEarlyConn Conn Socksaddr "byte list option"
  | CallDialEarlyXUDPPacketConn Conn Socksaddr "byte list option"
  | CallDialEarlyPacketConn Conn Socksaddr
  | CallMuxDialContext string Socksaddr
  | CallMuxListenPacket Socksaddr

text \<open>
  What the collaborators answer is a parameter of a dial: the dialer, the transport, the
  TLS handshake, RSA encryption (with its random source), the protocol client, the
  multiplexer, and the operations and constants of the metadata library.
\<close>

record DialEnv =
  dialer_DialContext :: "Socksaddr \<Rightarrow> error + Conn"
  transport_DialContext :: "error + Conn"
  tls_ClientHandshake :: "Conn \<Rightarrow> error + Conn"
  rsa_EncryptPKCS1v15 :: "rsa_PublicKey \<Rightarrow> byte list \<Rightarrow> error + byte list"
  client_DialEarlyConn :: "Conn \<Rightarrow> Socksaddr \<Rightarrow> byte list option \<Rightarrow> error + NetConn"
  client_DialEarlyXUDPPacketConn :: "Conn \<Rightarrow> Socksaddr \<Rightarrow> byte list option \<Rightarrow> error + NetConn"
  client_DialEarlyPacketConn :: "Conn \<Rightarrow> Socksaddr \<Rightarrow> error + NetConn"
  mux_DialContext :: "string \<Rightarrow> Socksaddr \<Rightarrow> error + NetConn"
  mux_ListenPacket :: "Socksaddr \<Rightarrow> error + NetConn"
  NetworkName :: "string \<Rightarrow> string"
  Socksaddr_String :: "Socksaddr \<Rightarrow> byte list"
  IsFqdn :: "Socksaddr \<Rightarrow> bool"
  SeqPacketMagicAddress :: "byte list"



text \<open>\<open>len\<close> of a slice that may be nil.\<close>

definition len :: "byte list option \<Rightarrow> nat" where
  "len s = (case s of None \<Rightarrow> 0 | Some bs \<Rightarrow> length bs)"

text \<open>\<open>common.Close\<close> of a connection variable closes it unless it is nil.  When
  acquiring the stream has failed, the variable is nil: the dialer, the transport and the
  handshake return no connection with an error.\<close>

definition common_Close :: "Conn option \<Rightarrow> call list" where
  "common_Close conn = (case conn of None \<Rightarrow> [] | Some c \<Rightarrow> [CallClose c])"

text \<open>
  The stream acquisition that \<open>vlessDialer.DialContext\<close> and \<open>vlessDialer.ListenPacket\<close>
  both start with: the transport if there is one, otherwise the dialer and, with a TLS
  configuration, the handshake.  The result is \<open>err\<close> or \<open>conn\<close>, and the calls made.
\<close>

definition vlessDialer_connect :: "DialEnv \<Rightarrow> VLESS \<Rightarrow> Socksaddr \<Rightarrow> (error + Conn) \<times> call list" where
  "vlessDialer_connect env h destination =
     (if transport h \<noteq> None then (transport_DialContext env, [CallTransportDial])
      else
        (let server = (if Enabled (vppl h) \<and> Proxy (vppl h) then destination else serverAddr h)
         in case dialer_DialContext env server of
              Inl err \<Rightarrow> (Inl err, [CallDial server])
            | Inr conn \<Rightarrow>
                if tlsConfig h \<noteq> None
                then (tls_ClientHandshake env conn, [CallDial server, CallTLSHandshake conn])
                else (Inr conn, [CallDial server])))"

definition vlessDialer_DialContext :: "DialEnv \<Rightarrow> VLESS \<Rightarrow> string \<Rightarrow> Socksaddr \<Rightarrow> (error + NetConn) \<times> call list" where
  "vlessDialer_DialContext env h network' destination =
     (case vlessDialer_connect env h destination of
        (Inl err, calls) \<Rightarrow> (Inl err, calls)
      | (Inr conn, calls) \<Rightarrow>
          if NetworkName env network' = ''tcp'' then
            (client_DialEarlyConn env conn destination (originDest h),
             calls @ [CallDialEarlyConn conn destination (originDest h)])
          else if NetworkName env network' = ''udp'' then
            (if xudp h then
               (client_DialEarlyXUDPPacketConn env conn destination (originDest h),
                calls @ [CallDialEarlyXUDPPacketConn conn destination (originDest h)])
             else if packetAddr h then
               (if IsFqdn env destination
                then (Inl (E_New ''packetaddr: domain destination is not supported''), calls)
                else
                  (let magic = \<lparr>Addr = NoAddr, Port = 0, Fqdn = SeqPacketMagicAddress env\<rparr>
                   in case client_DialEarlyPacketConn env conn magic of
                        Inl err \<Rightarrow> (Inl err, calls @ [CallDialEarlyPacketConn conn magic])
                      | Inr packetConn \<Rightarrow>
                          (Inr (BindPacketConn (PacketAddrConn packetConn destination) destination),
                           calls @ [CallDialEarlyPacketConn conn magic])))
             else
               (client_DialEarlyPacketConn env conn destination,
                calls @ [CallDialEarlyPacketConn conn destination]))
          else (Inl (E_New (''unknown network '' @ network')), calls))"

definition vlessDialer_ListenPacket :: "DialEnv \<Rightarrow> VLESS \<Rightarrow> Socksaddr \<Rightarrow> (error + NetConn) \<times> call list" where
  "vlessDialer_ListenPacket env h destination =
     (case vlessDialer_connect env h destination of
        (Inl err, calls) \<Rightarrow> (Inl err, calls @ common_Close None)
      | (Inr conn, calls) \<Rightarrow>
          if xudp h then
            (client_DialEarlyXUDPPacketConn env conn destination (originDest h),
             calls @ [CallDialEarlyXUDPPacketConn conn destination (originDest h)])
          else if packetAddr h then
            (if IsFqdn env destination
             then (Inl (E_New ''packetaddr: domain destination is not supported''), calls)
             else
               (let magic = \<lparr>Addr = NoAddr, Port = 0, Fqdn = SeqPacketMagicAddress env\<rparr>
                in case client_DialEarlyPacketConn env conn magic of
                     Inl err \<Rightarrow> (Inl err, calls @ [CallDialEarlyPacketConn conn magic])
                   | Inr packetConn \<Rightarrow>
                       (Inr (PacketAddrConn packetConn destination),
                        calls @ [CallDialEarlyPacketConn conn magic])))
          else
            (client_DialEarlyPacketConn env conn destination,
             calls @ [CallDialEarlyPacketConn conn destination]))"





text \<open>The declared destination and obfuscated payload of each handshake that carries
  one: the arguments of \<open>DialEarlyConn\<close> and \<open>DialEarlyXUDPPacketConn\<close>.\<close>

fun anchor_handshakes :: "call list \<Rightarrow> (Socksaddr \<times> byte list option) list" where
  "anchor_handshakes [] = []"
| "anchor_handshakes (CallDialEarlyConn conn a od # cs) = (a, od) # anchor_handshakes cs"
| "anchor_handshakes (CallDialEarlyXUDPPacketConn conn a od # cs) = (a, od) # anchor_handshakes cs"
| "anchor_handshakes (c # cs) = anchor_handshakes cs"

fun closed_conns :: "call list \<Rightarrow> Conn list" where
  "closed_conns [] = []"
| "closed_conns (CallClose c # cs) = c # closed_conns cs"
| "closed_conns (c # cs) = closed_conns cs"

subsection \<open>Collaborators and adapters to evaluate with\<close>

text \<open>
  Collaborators that always succeed, for evaluating dials on concrete inputs: every
  dial yields stream 1, the handshake keeps the stream, and ``encryption'' is a
  stand-in that refuses messages longer than 245 bytes and otherwise prefixes the
  reversed message with \<open>00 02\<close>.
\<close>

definition sample_String :: "Socksaddr \<Rightarrow> byte list" where
  "sample_String d =
     (case Addr d of
        IPv4 a \<Rightarrow> [ucast (drop_bit 24 a), ucast (drop_bit 16 a), ucast (drop_bit 8 a), ucast a]
      | IPv6 a \<Rightarrow> []
      | NoAddr \<Rightarrow> Fqdn d) @ [0x3A] @ BigEndian_uint16 (Port d)"

definition sample_NetworkName :: "string \<Rightarrow> string" where
  "sample_NetworkName s =
     (if take 3 s = ''tcp'' then ''tcp'' else if take 3 s = ''udp'' then ''udp'' else s)"

definition sample_Encrypt :: "rsa_PublicKey \<Rightarrow> byte list \<Rightarrow> error + byte list" where
  "sample_Encrypt key msg = (if 245 < length msg then Inl (External 3) else Inr ([0, 2] @ rev msg))"

definition sample_DialEnv :: DialEnv where
  "sample_DialEnv =
     \<lparr>dialer_DialContext = (\<lambda>a. Inr (Conn 1)),
      transport_DialContext = Inr (Conn 2),
      tls_ClientHandshake = (\<lambda>c. Inr c),
      rsa_EncryptPKCS1v15 = sample_Encrypt,
      client_DialEarlyConn = (\<lambda>conn a od. Inr (ClientConn 1)),
      client_DialEarlyXUDPPacketConn = (\<lambda>conn a od. Inr (ClientConn 2)),
      client_DialEarlyPacketConn = (\<lambda>conn a. Inr (ClientConn 3)),
      mux_DialContext = (\<lambda>n a. Inr (ClientConn 4)),
      mux_ListenPacket = (\<lambda>a. Inr (ClientConn 5)),
      NetworkName = sample_NetworkName,
      Socksaddr_String = sample_String,
      IsFqdn = (\<lambda>d. Addr d = NoAddr),
      SeqPacketMagicAddress = [0x73, 0x70]\<rparr>"



definition sample_domain :: Socksaddr where
  "sample_domain = \<lparr>Addr = NoAddr, Port = 53, Fqdn = [0x61, 0x2E, 0x69, 0x6F]\<rparr>"

definition sample_VLESS :: VLESS where
  "sample_VLESS =
     \<lparr>adapter = \<lparr>protocol = ''vless'', network = [''tcp'', ''udp''], tag = ''out'',
                  dependencies = []\<rparr>,
      dialer = 0, client = Some 0, serverAddr = sample_Destination,
      multiplexDialer = None, tlsConfig = None, transport = None,
      packetAddr = False, xudp = True,
      vppl = \<lparr>Enabled = False, Proxy = False, Address = Socksaddr_zero, Key = None\<rparr>,
      originDest = None\<rparr>"



definition packetaddr_VLESS :: VLESS where
  "packetaddr_VLESS = sample_VLESS\<lparr>xudp := False, packetAddr := True\<rparr>"


text \<open>Constructors that always succeed, and options to evaluate \<open>NewVLESS\<close> on.\<close>

definition sample_NewEnv :: NewEnv where
  "sample_NewEnv =
     \<lparr>dialer_New = (\<lambda>opts. Inr 0),
      Network_Build = (\<lambda>n. n),
      withDialerDependency = (\<lambda>opts. []),
      M_ParseSocksaddrHostPort = (\<lambda>host port. \<lparr>Addr = NoAddr, Port = port, Fqdn = map of_char host\<rparr>),
      pem_Decode = (\<lambda>s. Some [0x30]),
      x509_ParsePKIXPublicKey = (\<lambda>bs. Inr (RSA_key (rsa_PublicKey 3233 17))),
      tls_NewClient = (\<lambda>server opts. Inr 0),
      v2ray_NewClientTransport = (\<lambda>d a opts t. Inr 0),
      vless_NewClient = (\<lambda>uuid flow. Inr 0),
      mux_NewClientWithOptions = (\<lambda>opts. Inr (case opts of None \<Rightarrow> None | Some m \<Rightarrow> Some 0))\<rparr>"

definition sample_Options :: VLESSOutboundOptions where
  "sample_Options =
     \<lparr>Dialer_Options = 0, Server = ''s'', ServerPort = 443, Options_UUID = ''u'',
      Options_Flow = '''', Network = [''tcp''], TLS = None, Multiplex = None,
      Transport_Options = None, PacketEncoding = None,
      VPPL = \<lparr>VPPL_Enabled = True, VPPL_PathToKey = '''', VPPL_Key = ''MIIB'',
              VPPL_Proxy = False, VPPL_Host = '''', VPPL_Port = 0\<rparr>\<rparr>"

definition tls_packetaddr_VLESS :: VLESS where
  "tls_packetaddr_VLESS = packetaddr_VLESS\<lparr>tlsConfig := Some 0\<rparr>"

section \<open>Lengths of variable-length integers\<close>

lemma unat_drop_bit_7: "unat (drop_bit 7 (x::64 word)) = unat x div 128"
proof -
  have "unat (drop_bit 7 x) = drop_bit 7 (unat x)" by (rule unat_drop_bit_eq)
  also have "\<dots> = unat x div 2 ^ 7" by (rule drop_bit_eq_div)
  finally show ?thesis by simp
qed

lemma length_PutUvarint_bounds:
  "unat x < 128 ^ Suc k \<Longrightarrow> (0 < k \<longrightarrow> 128 ^ k \<le> unat x) \<Longrightarrow> length (PutUvarint x) = Suc k"
proof (induction k arbitrary: x)
  case 0
  then have "\<not> 0x80 \<le> x" by (simp add: word_le_nat_alt)
  then show ?case by (subst PutUvarint.simps) simp
next
  case (Suc k)
  from Suc.prems have big: "128 * 128 ^ k \<le> unat x" by simp
  have "(1::nat) \<le> 128 ^ k" by simp
  with big have "128 \<le> unat x" by linarith
  then have ge: "0x80 \<le> x" by (simp add: word_le_nat_alt)
  have d: "unat (drop_bit 7 x) = unat x div 128" by (rule unat_drop_bit_7)
  from Suc.prems have "unat x div 128 < 128 ^ Suc k"
    by (simp add: less_mult_imp_div_less mult.commute)
  moreover from big have "128 ^ k \<le> unat x div 128"
    by (simp add: less_eq_div_iff_mult_less_eq mult.commute)
  ultimately have "length (PutUvarint (drop_bit 7 x)) = Suc k"
    using Suc.IH [of "drop_bit 7 x"] d by simp
  with ge show ?case by (subst PutUvarint.simps) simp
qed

lemma length_PutUvarint: "length (PutUvarint x) = UVariantLen x"
proof -
  have top: "unat x < 128 ^ 10"
  proof -
    have "unat x < 2 ^ 64" using unsigned_less [of x] by simp
    then show ?thesis by simp
  qed
  show ?thesis
    unfolding UVariantLen_def
    using top length_PutUvarint_bounds [of x 0] length_PutUvarint_bounds [of x 1]
      length_PutUvarint_bounds [of x 2] length_PutUvarint_bounds [of x 3]
      length_PutUvarint_bounds [of x 4] length_PutUvarint_bounds [of x 5]
      length_PutUvarint_bounds [of x 6] length_PutUvarint_bounds [of x 7]
      length_PutUvarint_bounds [of x 8] length_PutUvarint_bounds [of x 9]
    by (simp add: word_less_nat_alt not_less)
qed

lemma Extend_PutUvarint_exact: "Extend_PutUvarint (UVariantLen x) x = Inr (PutUvarint x)"
  by (simp add: Extend_PutUvarint_def length_PutUvarint)

lemma PutUvarint_0: "PutUvarint 0 = [0]"
  by (subst PutUvarint.simps) simp

lemma Extend_PutUvarint_zero: "Extend_PutUvarint (Suc 0) 0 = Inr [0]"
  by (simp add: Extend_PutUvarint_def PutUvarint_0)

lemma UVariantLen_0: "UVariantLen 0 = 1"
  by (simp add: UVariantLen_def)

section \<open>What EncodeRequest writes\<close>

lemma EncodeRequest_addons_eq:
  "EncodeRequest_addons r buffer = Inr (buffer @ addons_bytes r)"
  by (simp add: EncodeRequest_addons_def addons_bytes_def Extend_PutUvarint_exact
      Extend_PutUvarint_zero split: option.split)

lemma length_addons_bytes:
  "Flow r \<noteq> [] \<or> VPPLDestAddr r \<noteq> None \<Longrightarrow> length (addons_bytes r) = RequestAddonLen r"
  by (auto simp add: addons_bytes_def RequestAddonLen_def length_PutUvarint UVariantLen_0
      split: option.split)

lemma RequestAddonLen_pos:
  "(0 < RequestAddonLen r) = (Flow r \<noteq> [] \<or> VPPLDestAddr r \<noteq> None)"
  by (simp add: RequestAddonLen_def)

lemma RequestAddonLen_zero:
  "Flow r = [] \<Longrightarrow> VPPLDestAddr r = None \<Longrightarrow> RequestAddonLen r = 0"
  by (simp add: RequestAddonLen_def)

lemma EncodeRequest_eq:
  "EncodeRequest ser r buffer =
     (if Command r \<noteq> CommandMux then
        (case WriteAddrPort ser (Destination r) of
           Inl err \<Rightarrow> Inl err
         | Inr addr \<Rightarrow> Inr (buffer @ request_bytes r @ addr))
      else Inr (buffer @ request_bytes r))"
  by (simp add: EncodeRequest_def request_bytes_def Extend_PutUvarint_exact
      EncodeRequest_addons_eq Let_def split: sum.split)

lemma length_request_bytes:
  "length (UUID r) = 16 \<Longrightarrow>
   length (request_bytes r) = 1 + 16 + UVariantLen (of_nat (RequestAddonLen r)) + RequestAddonLen r + 1"
  using length_addons_bytes [of r]
  by (cases "0 < RequestAddonLen r")
    (simp_all add: request_bytes_def length_PutUvarint RequestAddonLen_pos RequestAddonLen_zero)

section \<open>Response decoding\<close>

text \<open>
  C8.  A response whose version byte is the protocol version and whose length byte is
  \<open>N > 0\<close>, followed by \<open>N\<close> trailing bytes of any content, decodes successfully and
  leaves the stream exactly behind those \<open>N\<close> bytes, so \<open>2 + N\<close> bytes are consumed;
  a response that starts with any other version byte is rejected.
\<close>

theorem ReadResponse_skips_trailing:
  "(0 < n \<and> length trailing = unat n \<longrightarrow>
      ReadResponse (Version # n # trailing @ rest) = Inr rest
      \<and> length (Version # n # trailing @ rest) - length rest = 2 + unat n)
   \<and> (v \<noteq> Version \<longrightarrow> ReadResponse (v # stream) = Inl (E_NewByte ''unknown version: '' v))"
  by (simp add: ReadResponse_def rw_ReadByte_def rw_SkipN_def)

theorem ReadResponse_skips_trailing_witness:
  "(0::byte) < 3 \<and> length [0xAA, 0xBB, 0xCC :: byte] = unat (3::byte) \<and> (1::byte) \<noteq> Version
   \<and> ReadResponse [0, 3, 0xAA, 0xBB, 0xCC, 0x11, 0x22] = Inr [0x11, 0x22]
   \<and> ReadResponse [1, 3, 0xAA, 0xBB, 0xCC, 0x11, 0x22] = Inl (E_NewByte ''unknown version: '' 1)"
  using ReadResponse_skips_trailing [of 3 "[0xAA, 0xBB, 0xCC]" "[0x11, 0x22]" 1 "[3, 0xAA, 0xBB, 0xCC, 0x11, 0x22]"]
  by (simp add: Version_def)

section \<open>Request length\<close>

lemma sample_WriteAddrPort_Destination:
  "WriteAddrPort sample_AddressSerializer sample_Destination = Inr [1, 187, 1, 10, 0, 0, 1]"
  by (simp add: sample_AddressSerializer_def sample_WriteAddrPort_def sample_Destination_def
      BigEndian_uint16_def)

lemma sample_AddrPortLen_Destination:
  "AddrPortLen sample_AddressSerializer sample_Destination = 7"
  by (simp add: sample_AddressSerializer_def sample_AddrPortLen_def sample_Destination_def)

lemma PutUvarint_small: "x < 0x80 \<Longrightarrow> PutUvarint x = [ucast x]"
proof -
  assume "x < 0x80"
  then have "\<not> 0x80 \<le> x" by (simp only: not_le)
  then show ?thesis by (subst PutUvarint.simps) (simp only: if_False)
qed

lemma sample_Request_bytes:
  "request_bytes sample_Request =
     [0] @ sample_UUID @ [20] @ [10, 16] @ FlowVision @ [18, 0] @ [1]"
  by (simp add: request_bytes_def addons_bytes_def sample_Request_def RequestAddonLen_def
      UVariantLen_def FlowVision_def PutUvarint_small Version_def CommandTCP_def)

text \<open>
  C1.  For every request (its identity being 16 bytes) and every payload, with an address
  serializer whose announced length for the request's destination is the number of bytes
  it writes for it: the buffer that \<open>WriteRequest\<close> hands to the writer, the encoded
  request followed by the payload, has length exactly
  \<open>RequestLen(request) + len(payload)\<close>; and the encoding fails only when the
  command is not MUX and the serializer refuses the destination.
\<close>

theorem WriteRequest_length:
  assumes "length (UUID r) = 16"
    and "\<forall>addr. WriteAddrPort ser (Destination r) = Inr addr
           \<longrightarrow> length addr = AddrPortLen ser (Destination r)"
  shows "case WriteRequest ser [] r payload of
           Inr out \<Rightarrow> length out = RequestLen ser r + length payload
         | Inl err \<Rightarrow> Command r \<noteq> CommandMux \<and> WriteAddrPort ser (Destination r) = Inl err"
  using assms length_request_bytes [of r]
  by (auto simp add: WriteRequest_def EncodeRequest_eq RequestLen_def Let_def split: sum.split)

theorem WriteRequest_length_witness:
  "length (UUID sample_Request) = 16
   \<and> WriteAddrPort sample_AddressSerializer (Destination sample_Request) = Inr [1, 187, 1, 10, 0, 0, 1]
   \<and> AddrPortLen sample_AddressSerializer (Destination sample_Request) = 7
   \<and> WriteRequest sample_AddressSerializer [] sample_Request [0x47, 0x45, 0x54]
       = Inr ([0] @ sample_UUID @ [20] @ [10, 16] @ FlowVision @ [18, 0] @ [1]
              @ [1, 187, 1, 10, 0, 0, 1] @ [0x47, 0x45, 0x54])
   \<and> RequestLen sample_AddressSerializer sample_Request + length [0x47, 0x45, 0x54 :: byte] = 49"
proof -
  have len: "length (UUID sample_Request) = 16"
    by (simp add: sample_Request_def sample_UUID_def)
  have dest: "Destination sample_Request = sample_Destination"
    by (simp add: sample_Request_def)
  have w: "WriteRequest sample_AddressSerializer [] sample_Request [0x47, 0x45, 0x54]
       = Inr ([0] @ sample_UUID @ [20] @ [10, 16] @ FlowVision @ [18, 0] @ [1]
              @ [1, 187, 1, 10, 0, 0, 1] @ [0x47, 0x45, 0x54])"
    by (simp add: WriteRequest_def EncodeRequest_eq dest sample_WriteAddrPort_Destination
        sample_Request_bytes) (simp add: sample_Request_def CommandTCP_def CommandMux_def)
  from WriteRequest_length [of sample_Request sample_AddressSerializer "[0x47, 0x45, 0x54]"] len
  have "RequestLen sample_AddressSerializer sample_Request + length [0x47, 0x45, 0x54 :: byte] = 49"
    by (simp add: w dest sample_WriteAddrPort_Destination sample_AddrPortLen_Destination
        sample_UUID_def FlowVision_def)
  with len w show ?thesis
    by (simp add: dest sample_WriteAddrPort_Destination sample_AddrPortLen_Destination)
qed

section \<open>Packet requests\<close>

lemma BigEndian_value_uint16: "BigEndian_value (BigEndian_uint16 v) = unat v"
proof -
  have hi: "unat (ucast (drop_bit 8 v) :: byte) = unat v div 256"
  proof -
    have "unat v < 2 ^ 16" using unsigned_less [of v] by simp
    then have "unat v div 256 < 256" by simp
    moreover have "unat (drop_bit 8 v) = unat v div 256"
    proof -
      have "unat (drop_bit 8 v) = drop_bit 8 (unat v)" by (rule unat_drop_bit_eq)
      also have "\<dots> = unat v div 2 ^ 8" by (rule drop_bit_eq_div)
      finally show ?thesis by simp
    qed
    ultimately show ?thesis by (simp add: unsigned_ucast_eq take_bit_eq_mod)
  qed
  have lo: "unat (ucast v :: byte) = unat v mod 256"
    by (simp add: unsigned_ucast_eq take_bit_eq_mod)
  show ?thesis
    by (simp add: BigEndian_value_def BigEndian_uint16_def hi lo)
qed

lemma length_long_payload: "length long_payload = 65536"
  by (simp only: long_payload_def length_replicate)

text \<open>
  C10, as stated, fails on a payload of 65536 bytes: \<open>uint16(len(payload))\<close> wraps to 0,
  so the two bytes written before the payload are \<open>[0, 0]\<close>, which is not its length.
\<close>

theorem WritePacketRequest_long_payload:
  "WritePacketRequest sample_AddressSerializer [] sample_Request long_payload
     = Inr ([0] @ sample_UUID @ [0] @ [2] @ [1, 187, 1, 10, 0, 0, 1] @ [0, 0] @ long_payload)
   \<and> BigEndian_value [0, 0] \<noteq> length long_payload"
proof -
  have ne: "long_payload \<noteq> []"
    using length_long_payload by auto
  have d: "Destination sample_Request = sample_Destination" by (simp add: sample_Request_def)
  have "WritePacketRequest sample_AddressSerializer [] sample_Request long_payload
     = Inr ([0] @ sample_UUID @ [0] @ [2] @ [1, 187, 1, 10, 0, 0, 1] @ [0, 0] @ long_payload)"
    using ne
    by (simp add: WritePacketRequest_def d sample_WriteAddrPort_Destination length_long_payload
        BigEndian_uint16_def Version_def CommandUDP_def) (simp add: sample_Request_def)
  then show ?thesis by (simp add: BigEndian_value_def length_long_payload)
qed

text \<open>
  C10, amended.  For every request and payload, \<open>WritePacketRequest\<close> fails with the
  address serializer's error when it refuses the destination, and otherwise writes the
  version byte, the identity, an addon-length byte of 0 and no optional block (the flow
  is not written), the UDP command byte whatever the request's command, the destination
  and, for a non-empty payload, two bytes followed by the payload.  The two bytes are the
  big-endian form of \<open>len(payload)\<close> modulo 65536: the payload's length when it is shorter
  than 65536 bytes.
\<close>

theorem WritePacketRequest_bytes:
  "WritePacketRequest ser writer r payload =
     (case WriteAddrPort ser (Destination r) of
        Inl err \<Rightarrow> Inl err
      | Inr addr \<Rightarrow>
          Inr (writer @ [Version] @ UUID r @ [0] @ [CommandUDP] @ addr
               @ (if payload = [] then []
                  else BigEndian_uint16 (of_nat (length payload)) @ payload)))
   \<and> length (BigEndian_uint16 (of_nat (length payload))) = 2
   \<and> BigEndian_value (BigEndian_uint16 (of_nat (length payload))) = length payload mod 65536"
  by (simp add: WritePacketRequest_def BigEndian_value_uint16 unat_of_nat split: sum.split)
    (simp add: BigEndian_uint16_def)

section \<open>Decoding what was encoded\<close>

lemma bit_byte_80: "bit (0x80 :: byte) n \<longleftrightarrow> n = 7"
proof -
  have "bit (2 ^ 7 :: byte) n \<longleftrightarrow> n = 7"
    by (simp only: bit_exp_iff) (auto simp add: possible_bit_def)
  then show ?thesis by simp
qed

lemma bit_byte_7f: "bit (0x7f :: byte) n \<longleftrightarrow> n < 7"
proof -
  have "bit (mask 7 :: byte) n \<longleftrightarrow> n < 7"
    by (simp only: bit_mask_iff) (auto simp add: possible_bit_def)
  then show ?thesis by (simp add: mask_eq_exp_minus_1)
qed

lemma low7: "ucast (((ucast (w::64 word) :: byte) OR 0x80) AND 0x7f) = (take_bit 7 w :: 64 word)"
proof (rule bit_word_eqI)
  fix n
  assume n: "n < LENGTH(64)"
  have "bit (ucast (((ucast w :: byte) OR 0x80) AND 0x7f) :: 64 word) n
      = (n < 64 \<and> (bit (ucast w :: byte) n \<or> bit (0x80 :: byte) n) \<and> bit (0x7f :: byte) n)"
    by (simp only: bit_ucast_iff bit_and_iff bit_or_iff) simp
  also have "\<dots> = (n < 64 \<and> (bit (ucast w :: byte) n \<or> n = 7) \<and> n < 7)"
    by (simp only: bit_byte_80 bit_byte_7f)
  also have "\<dots> = (n < 7 \<and> bit (ucast w :: byte) n)"
    by auto
  also have "\<dots> = (n < 7 \<and> bit w n)"
    by (auto simp add: bit_ucast_iff)
  also have "\<dots> = bit (take_bit 7 w) n"
    by (auto simp add: bit_take_bit_iff)
  finally show "bit (ucast (((ucast w :: byte) OR 0x80) AND 0x7f) :: 64 word) n = bit (take_bit 7 w) n" .
qed

lemma split7: "take_bit 7 (w::64 word) OR push_bit 7 (drop_bit 7 w) = w"
proof (rule bit_word_eqI)
  fix n
  assume "n < LENGTH(64)"
  then show "bit (take_bit 7 w OR push_bit 7 (drop_bit 7 w)) n = bit w n"
    by (cases "n < 7") (auto simp add: bit_simps)
qed

lemma high_bit: "\<not> ((ucast (w::64 word) :: byte) OR 0x80) < 0x80"
  using le_word_or1 [of "0x80 :: byte" "ucast w"] by (simp add: not_less)

lemma ucast_small: "(w::64 word) < 0x80 \<Longrightarrow> ucast (ucast w :: byte) = w"
  by (simp add: word_unat_eq_iff unsigned_ucast_eq take_bit_eq_mod word_less_nat_alt unat_mod)

lemma byte_of_small: "(w::64 word) < 0x80 \<Longrightarrow> (ucast w :: byte) < 0x80"
  by (simp add: word_less_nat_alt unsigned_ucast_eq take_bit_eq_mod)

lemma byte_of_le1: "unat (w::64 word) < 2 \<Longrightarrow> \<not> 1 < (ucast w :: byte)"
  by (simp add: word_less_nat_alt unsigned_ucast_eq take_bit_eq_mod)

lemma ReadUvarint_loop_PutUvarint:
  "i \<le> 9 \<Longrightarrow> unat w < 2 ^ (64 - 7 * i) \<Longrightarrow>
   ReadUvarint_loop i x (7 * i) (PutUvarint w @ rest) = Inr (x OR push_bit (7 * i) w, rest)"
proof (induction w arbitrary: i x rule: PutUvarint.induct)
  case (1 w)
  show ?case
  proof (cases "0x80 \<le> w")
    case True
    then have big: "128 \<le> unat w" by (simp add: word_le_nat_alt)
    have i8: "i \<le> 8"
    proof (rule ccontr)
      assume "\<not> i \<le> 8"
      with "1.prems" have "i = 9" by simp
      with "1.prems" big show False by simp
    qed
    then have e: "64 - 7 * i = 7 + (64 - 7 * (i + 1))" by simp
    have "unat w < 2 ^ 7 * 2 ^ (64 - 7 * (i + 1))"
      using "1.prems"(2) by (simp only: e power_add)
    then have "unat w < 128 * 2 ^ (64 - 7 * (i + 1))"
      by simp
    then have small: "unat (drop_bit 7 w) < 2 ^ (64 - 7 * (i + 1))"
      by (simp only: unat_drop_bit_7 less_mult_imp_div_less mult.commute)
    have put: "PutUvarint w = (ucast w OR 0x80) # PutUvarint (drop_bit 7 w)"
      using True by (subst PutUvarint.simps) simp
    have ih: "ReadUvarint_loop (i + 1) (x OR push_bit (7 * i) (take_bit 7 w)) (7 * (i + 1))
               (PutUvarint (drop_bit 7 w) @ rest)
             = Inr ((x OR push_bit (7 * i) (take_bit 7 w)) OR push_bit (7 * (i + 1)) (drop_bit 7 w), rest)"
      using "1.IH" [OF True, of "i + 1" "x OR push_bit (7 * i) (take_bit 7 w)"] i8 small by simp
    have join: "(x OR push_bit (7 * i) (take_bit 7 w)) OR push_bit (7 * (i + 1)) (drop_bit 7 w)
                = x OR push_bit (7 * i) w"
    proof -
      have "push_bit (7 * (i + 1)) (drop_bit 7 w) = push_bit (7 * i) (push_bit 7 (drop_bit 7 w))"
        by (simp add: push_bit_push_bit add.commute)
      then have "(x OR push_bit (7 * i) (take_bit 7 w)) OR push_bit (7 * (i + 1)) (drop_bit 7 w)
                 = x OR push_bit (7 * i) (take_bit 7 w OR push_bit 7 (drop_bit 7 w))"
        by (simp only: push_bit_or or.assoc)
      then show ?thesis by (simp only: split7)
    qed
    have i10: "i < 10" using i8 by simp
    have step: "ReadUvarint_loop i x (7 * i) ((ucast w OR 0x80) # PutUvarint (drop_bit 7 w) @ rest)
          = ReadUvarint_loop (i + 1) (x OR push_bit (7 * i) (take_bit 7 w)) (7 * i + 7)
              (PutUvarint (drop_bit 7 w) @ rest)"
      using i10 high_bit [of w] by (simp add: low7)
    have "7 * i + 7 = 7 * (i + 1)" by simp
    with step ih join put show ?thesis by simp
  next
    case False
    then have lt: "w < 0x80" by (simp add: not_le)
    have put: "PutUvarint w = [ucast w]"
      using False by (subst PutUvarint.simps) simp
    have i10: "i < 10" using "1.prems" by simp
    have nine: "i = 9 \<Longrightarrow> \<not> 1 < (ucast w :: byte)"
      using "1.prems" by (intro byte_of_le1) simp
    show ?thesis
      using i10 nine byte_of_small [OF lt] ucast_small [OF lt]
      by (auto simp add: put)
  qed
qed

lemma rw_ReadUVariant_PutUvarint: "rw_ReadUVariant (PutUvarint w @ rest) = Inr (w, rest)"
proof -
  have "unat w < 2 ^ 64" using unsigned_less [of w] by simp
  then show ?thesis
    using ReadUvarint_loop_PutUvarint [of 0 w 0 rest] by (simp add: rw_ReadUVariant_def)
qed

lemma io_ReadFull_append: "io_ReadFull (length bs) (bs @ rest) = Inr (bs, rest)"
  by (cases bs) (simp_all add: io_ReadFull_def)

lemma sint_of_nat_small: "n < 2 ^ 63 \<Longrightarrow> sint (of_nat n :: 64 word) = int n"
proof -
  assume n: "n < 2 ^ 63"
  then have "int n < 2 ^ 63" by (metis of_nat_less_iff of_nat_numeral of_nat_power)
  then have "signed_take_bit 63 (int n) = int n"
    by (simp add: signed_take_bit_int_eq_self_iff)
  moreover have "sint (word_of_int (int n) :: 64 word) = signed_take_bit (LENGTH(64) - 1) (int n)"
    by (rule sint_sbintrunc')
  ultimately show ?thesis by simp
qed

lemma rw_ReadBytes_append:
  "length bs < 2 ^ 63 \<Longrightarrow>
   rw_ReadBytes (sint (of_nat (length bs) :: 64 word)) (bs @ rest) = Inr (bs, rest)"
  by (simp add: rw_ReadBytes_def sint_of_nat_small io_ReadFull_append)

lemma readAddons_addons_bytes:
  assumes "length (Flow r) < 2 ^ 63"
    and "\<forall>d. VPPLDestAddr r = Some d \<longrightarrow> length d < 2 ^ 63"
  shows "readAddons (addons_bytes r)
         = Inr \<lparr>Addons_Flow = Flow r, VPPLDestination = Some (case VPPLDestAddr r of None \<Rightarrow> [] | Some d \<Rightarrow> d)\<rparr>"
proof (cases "VPPLDestAddr r")
  case None
  have z: "rw_ReadUVariant [0] = Inr (0, [])"
    using rw_ReadUVariant_PutUvarint [of 0 "[]"] by (simp add: PutUvarint_0)
  have z2: "rw_ReadBytes (sint (0 :: 64 word)) [] = Inr ([], [])"
    using rw_ReadBytes_append [of "[]" "[]"] by simp
  show ?thesis
    using assms(1) None z z2
    by (simp add: readAddons_def addons_bytes_def rw_ReadByte_def rw_ReadUVariant_PutUvarint
        rw_ReadBytes_append)
next
  case (Some d)
  with assms(2) have "length d < 2 ^ 63" by simp
  then have last: "rw_ReadBytes (sint (of_nat (length d) :: 64 word)) d = Inr (d, [])"
    using rw_ReadBytes_append [of d "[]"] by simp
  have v: "rw_ReadUVariant (PutUvarint (of_nat (length d)) @ d) = Inr (of_nat (length d), d)"
    by (rule rw_ReadUVariant_PutUvarint)
  show ?thesis
    using assms(1) Some last v
    by (simp add: readAddons_def addons_bytes_def rw_ReadByte_def rw_ReadUVariant_PutUvarint
        rw_ReadBytes_append)
qed

lemma RequestAddonLen_bounds:
  assumes "RequestAddonLen r < 2 ^ 63"
    and "Flow r \<noteq> [] \<or> VPPLDestAddr r \<noteq> None"
  shows "length (Flow r) < 2 ^ 63" and "\<forall>d. VPPLDestAddr r = Some d \<longrightarrow> length d < 2 ^ 63"
proof -
  have "length (Flow r) \<le> RequestAddonLen r"
    using assms(2) by (simp add: RequestAddonLen_def)
  with assms(1) show "length (Flow r) < 2 ^ 63" by simp
  have "\<forall>d. VPPLDestAddr r = Some d \<longrightarrow> length d \<le> RequestAddonLen r"
    by (simp add: RequestAddonLen_def)
  with assms(1) show "\<forall>d. VPPLDestAddr r = Some d \<longrightarrow> length d < 2 ^ 63"
    by (metis le_less_trans)
qed

lemma word_of_nat_pos: "0 < n \<Longrightarrow> n < 2 ^ 63 \<Longrightarrow> 0 < (of_nat n :: 64 word)"
  by (simp add: word_less_nat_alt unat_of_nat)

lemma ReadRequest_request_bytes:
  assumes uuid: "length (UUID r) = 16"
    and addons: "Flow r \<noteq> [] \<or> VPPLDestAddr r \<noteq> None"
    and range: "RequestAddonLen r < 2 ^ 63"
  shows "ReadRequest ser (request_bytes r @ rest) =
     (let request1 = \<lparr>UUID = UUID r, Command = Command r, Destination = Socksaddr_zero,
                        Flow = Flow r,
                        VPPLDestAddr = Some (case VPPLDestAddr r of None \<Rightarrow> [] | Some d \<Rightarrow> d)\<rparr>
      in if Command r \<noteq> CommandMux then
           (case ReadAddrPort ser rest of
              Inl err \<Rightarrow> Inl (E_NewErr ''can't serialize vmess address: '' err)
            | Inr (dest, r2) \<Rightarrow> Inr (request1\<lparr>Destination := dest\<rparr>, r2))
         else Inr (request1, rest))"
proof -
  let ?L = "RequestAddonLen r"
  have pos: "0 < ?L" using addons by (simp add: RequestAddonLen_pos)
  have wpos: "0 < (of_nat ?L :: 64 word)" using pos range by (rule word_of_nat_pos)
  have len: "length (addons_bytes r) = ?L" using addons by (rule length_addons_bytes)
  have bytes: "request_bytes r @ rest
      = Version # (UUID r @ (PutUvarint (of_nat ?L) @ (addons_bytes r @ (Command r # rest))))"
    using pos by (simp add: request_bytes_def)
  have id: "io_ReadFull 16 (UUID r @ (PutUvarint (of_nat ?L) @ (addons_bytes r @ (Command r # rest))))
      = Inr (UUID r, PutUvarint (of_nat ?L) @ (addons_bytes r @ (Command r # rest)))"
    using io_ReadFull_append [of "UUID r"] uuid by simp
  have block: "rw_ReadBytes (sint (of_nat ?L :: 64 word)) (addons_bytes r @ (Command r # rest))
      = Inr (addons_bytes r, Command r # rest)"
    using rw_ReadBytes_append [of "addons_bytes r" "Command r # rest"] len range by simp
  have parsed: "readAddons (addons_bytes r)
      = Inr \<lparr>Addons_Flow = Flow r,
               VPPLDestination = Some (case VPPLDestAddr r of None \<Rightarrow> [] | Some d \<Rightarrow> d)\<rparr>"
    using RequestAddonLen_bounds [OF range addons] by (rule readAddons_addons_bytes)
  show ?thesis
    unfolding bytes
    by (simp add: ReadRequest_def binary_Read_uint8_def id rw_ReadUVariant_PutUvarint wpos block
        parsed ReadRequest_command_def Let_def split: sum.split)
qed

text \<open>
  C2, amended.  For every request with a 16-byte identity, a non-empty flow or a non-nil
  obfuscated destination, an optional block shorter than \<open>2^63\<close> bytes (lengths are
  Go \<open>int\<close>s) and the zero destination when its command is MUX, and for every payload:
  if the address serializer reads back what it writes for the destination, then decoding
  the bytes that \<open>WriteRequest\<close> produces yields the request with the same identity,
  command, destination and flow, with a non-nil obfuscated destination unchanged and a
  nil one replaced by the empty non-nil slice, and the rest of the stream is the payload.
  Encoding fails only when the serializer refuses the destination.
\<close>

theorem ReadRequest_WriteRequest:
  assumes "length (UUID r) = 16"
    and "Flow r \<noteq> [] \<or> VPPLDestAddr r \<noteq> None"
    and "RequestAddonLen r < 2 ^ 63"
    and "Command r = CommandMux \<longrightarrow> Destination r = Socksaddr_zero"
    and "\<forall>addr. Command r \<noteq> CommandMux \<and> WriteAddrPort ser (Destination r) = Inr addr
           \<longrightarrow> ReadAddrPort ser (addr @ payload) = Inr (Destination r, payload)"
  shows "case WriteRequest ser [] r payload of
           Inr out \<Rightarrow>
             ReadRequest ser out =
               Inr (r\<lparr>VPPLDestAddr := Some (case VPPLDestAddr r of None \<Rightarrow> [] | Some d \<Rightarrow> d)\<rparr>,
                    payload)
         | Inl err \<Rightarrow> Command r \<noteq> CommandMux \<and> WriteAddrPort ser (Destination r) = Inl err"
proof (cases "Command r = CommandMux")
  case True
  with assms(4) have z: "Destination r = Socksaddr_zero" by simp
  have "ReadRequest ser (request_bytes r @ payload) =
      Inr (\<lparr>UUID = UUID r, Command = Command r, Destination = Socksaddr_zero, Flow = Flow r,
             VPPLDestAddr = Some (case VPPLDestAddr r of None \<Rightarrow> [] | Some d \<Rightarrow> d)\<rparr>, payload)"
    using ReadRequest_request_bytes [OF assms(1-3), of ser payload] True by simp
  then show ?thesis
    using True z by (simp add: WriteRequest_def EncodeRequest_eq)
next
  case False
  show ?thesis
  proof (cases "WriteAddrPort ser (Destination r)")
    case (Inl err)
    with False show ?thesis by (simp add: WriteRequest_def EncodeRequest_eq)
  next
    case (Inr addr)
    with False assms(5) have rd: "ReadAddrPort ser (addr @ payload) = Inr (Destination r, payload)"
      by simp
    have "ReadRequest ser (request_bytes r @ (addr @ payload)) =
      Inr (\<lparr>UUID = UUID r, Command = Command r, Destination = Destination r, Flow = Flow r,
             VPPLDestAddr = Some (case VPPLDestAddr r of None \<Rightarrow> [] | Some d \<Rightarrow> d)\<rparr>, payload)"
      using ReadRequest_request_bytes [OF assms(1-3), of ser "addr @ payload"] False rd by simp
    then show ?thesis
      using False Inr by (simp add: WriteRequest_def EncodeRequest_eq)
  qed
qed

lemma sample_ReadAddrPort_Destination:
  "ReadAddrPort sample_AddressSerializer (1 # 187 # 1 # 10 # 0 # 0 # 1 # rest) = Inr (sample_Destination, rest)"
  by (simp add: sample_AddressSerializer_def sample_ReadAddrPort_def sample_Destination_def)

lemma RequestAddonLen_sample: "RequestAddonLen sample_Request = 20"
  by (simp add: RequestAddonLen_def sample_Request_def FlowVision_def UVariantLen_def)

lemma RequestAddonLen_anchor: "RequestAddonLen anchor_Request = 8"
  by (simp add: RequestAddonLen_def anchor_Request_def UVariantLen_def)

lemma anchor_Request_bytes:
  "request_bytes anchor_Request =
     [0] @ sample_UUID @ [8] @ [10, 0] @ [18, 4, 0xDE, 0xAD, 0xBE, 0xEF] @ [1]"
  by (simp add: request_bytes_def addons_bytes_def RequestAddonLen_anchor Version_def)
    (simp add: anchor_Request_def CommandTCP_def PutUvarint_small PutUvarint_0)

text \<open>
  C2, as stated, fails on a request with a flow and a nil obfuscated destination: the
  encoder writes tag 18 with length 0, and the decoder returns the empty, non-nil slice
  for it, so the decoded request differs from the encoded one in that field.
\<close>

theorem ReadRequest_nil_destination_not_restored:
  "Flow sample_Request \<noteq> []
   \<and> WriteRequest sample_AddressSerializer [] sample_Request [0x47, 0x45, 0x54]
       = Inr ([0] @ sample_UUID @ [20] @ [10, 16] @ FlowVision @ [18, 0] @ [1]
              @ [1, 187, 1, 10, 0, 0, 1] @ [0x47, 0x45, 0x54])
   \<and> ReadRequest sample_AddressSerializer
         ([0] @ sample_UUID @ [20] @ [10, 16] @ FlowVision @ [18, 0] @ [1]
              @ [1, 187, 1, 10, 0, 0, 1] @ [0x47, 0x45, 0x54])
       = Inr (sample_Request\<lparr>VPPLDestAddr := Some []\<rparr>, [0x47, 0x45, 0x54])
   \<and> sample_Request\<lparr>VPPLDestAddr := Some []\<rparr> \<noteq> sample_Request"
proof -
  have flow: "Flow sample_Request \<noteq> []"
    by (simp add: sample_Request_def FlowVision_def)
  have dest: "Destination sample_Request = sample_Destination"
    by (simp add: sample_Request_def)
  have w: "WriteRequest sample_AddressSerializer [] sample_Request [0x47, 0x45, 0x54]
       = Inr ([0] @ sample_UUID @ [20] @ [10, 16] @ FlowVision @ [18, 0] @ [1]
              @ [1, 187, 1, 10, 0, 0, 1] @ [0x47, 0x45, 0x54])"
    by (simp add: WriteRequest_def EncodeRequest_eq dest sample_WriteAddrPort_Destination
        sample_Request_bytes) (simp add: sample_Request_def CommandTCP_def CommandMux_def)
  have "ReadRequest sample_AddressSerializer
          (request_bytes sample_Request @ ([1, 187, 1, 10, 0, 0, 1] @ [0x47, 0x45, 0x54]))
       = Inr (sample_Request\<lparr>VPPLDestAddr := Some []\<rparr>, [0x47, 0x45, 0x54])"
    by (subst ReadRequest_request_bytes)
      (simp_all add: RequestAddonLen_sample sample_ReadAddrPort_Destination,
        simp_all add: sample_Request_def sample_UUID_def FlowVision_def CommandTCP_def CommandMux_def
          sample_ReadAddrPort_Destination)
  then have r: "ReadRequest sample_AddressSerializer
         ([0] @ sample_UUID @ [20] @ [10, 16] @ FlowVision @ [18, 0] @ [1]
              @ [1, 187, 1, 10, 0, 0, 1] @ [0x47, 0x45, 0x54])
       = Inr (sample_Request\<lparr>VPPLDestAddr := Some []\<rparr>, [0x47, 0x45, 0x54])"
    by (simp add: sample_Request_bytes)
  have ne: "sample_Request\<lparr>VPPLDestAddr := Some []\<rparr> \<noteq> sample_Request"
    by (simp add: sample_Request_def)
  from flow w r ne show ?thesis by (simp only: simp_thms)
qed

theorem ReadRequest_WriteRequest_witness:
  "length (UUID anchor_Request) = 16
   \<and> VPPLDestAddr anchor_Request \<noteq> None
   \<and> RequestAddonLen anchor_Request < 2 ^ 63
   \<and> Command anchor_Request \<noteq> CommandMux
   \<and> WriteAddrPort sample_AddressSerializer (Destination anchor_Request) = Inr [1, 187, 1, 10, 0, 0, 1]
   \<and> ReadAddrPort sample_AddressSerializer ([1, 187, 1, 10, 0, 0, 1] @ [0x47, 0x45, 0x54])
       = Inr (Destination anchor_Request, [0x47, 0x45, 0x54])
   \<and> WriteRequest sample_AddressSerializer [] anchor_Request [0x47, 0x45, 0x54]
       = Inr ([0] @ sample_UUID @ [8] @ [10, 0] @ [18, 4, 0xDE, 0xAD, 0xBE, 0xEF] @ [1]
              @ [1, 187, 1, 10, 0, 0, 1] @ [0x47, 0x45, 0x54])
   \<and> ReadRequest sample_AddressSerializer
         ([0] @ sample_UUID @ [8] @ [10, 0] @ [18, 4, 0xDE, 0xAD, 0xBE, 0xEF] @ [1]
              @ [1, 187, 1, 10, 0, 0, 1] @ [0x47, 0x45, 0x54])
       = Inr (anchor_Request, [0x47, 0x45, 0x54])"
proof -
  have len: "length (UUID anchor_Request) = 16"
    by (simp add: anchor_Request_def sample_UUID_def)
  have some: "VPPLDestAddr anchor_Request \<noteq> None"
    by (simp add: anchor_Request_def)
  have range: "RequestAddonLen anchor_Request < 2 ^ 63"
    by (simp add: RequestAddonLen_anchor)
  have cmd: "Command anchor_Request \<noteq> CommandMux"
    by (simp add: anchor_Request_def CommandTCP_def CommandMux_def)
  have dest: "Destination anchor_Request = sample_Destination"
    by (simp add: anchor_Request_def)
  have same: "anchor_Request\<lparr>VPPLDestAddr :=
                Some (case VPPLDestAddr anchor_Request of None \<Rightarrow> [] | Some d \<Rightarrow> d)\<rparr>
              = anchor_Request"
    by (simp add: anchor_Request_def)
  have w: "WriteRequest sample_AddressSerializer [] anchor_Request [0x47, 0x45, 0x54]
       = Inr ([0] @ sample_UUID @ [8] @ [10, 0] @ [18, 4, 0xDE, 0xAD, 0xBE, 0xEF] @ [1]
              @ [1, 187, 1, 10, 0, 0, 1] @ [0x47, 0x45, 0x54])"
    using cmd
    by (simp add: WriteRequest_def EncodeRequest_eq dest sample_WriteAddrPort_Destination
        anchor_Request_bytes)
  have "case WriteRequest sample_AddressSerializer [] anchor_Request [0x47, 0x45, 0x54] of
          Inr out \<Rightarrow>
            ReadRequest sample_AddressSerializer out =
              Inr (anchor_Request\<lparr>VPPLDestAddr :=
                     Some (case VPPLDestAddr anchor_Request of None \<Rightarrow> [] | Some d \<Rightarrow> d)\<rparr>,
                   [0x47, 0x45, 0x54])
        | Inl err \<Rightarrow> Command anchor_Request \<noteq> CommandMux
            \<and> WriteAddrPort sample_AddressSerializer (Destination anchor_Request) = Inl err"
    using len some range cmd
    by (intro ReadRequest_WriteRequest)
      (simp_all add: dest sample_WriteAddrPort_Destination sample_ReadAddrPort_Destination)
  then have r: "ReadRequest sample_AddressSerializer
         ([0] @ sample_UUID @ [8] @ [10, 0] @ [18, 4, 0xDE, 0xAD, 0xBE, 0xEF] @ [1]
              @ [1, 187, 1, 10, 0, 0, 1] @ [0x47, 0x45, 0x54])
       = Inr (anchor_Request, [0x47, 0x45, 0x54])"
    by (simp only: w same sum.case)
  show ?thesis
    using len some range cmd w r
    by (simp add: dest sample_WriteAddrPort_Destination sample_ReadAddrPort_Destination)
qed

section \<open>Construction of the adapter\<close>

lemma NewVLESS_vppl_key_update:
  "VPPL_Proxy (VPPL options) \<Longrightarrow>
   NewVLESS_vppl env (options\<lparr>VPPL := (VPPL options)\<lparr>VPPL_Key := k\<rparr>\<rparr>) outbound
     = NewVLESS_vppl env options outbound"
  by (simp add: NewVLESS_vppl_def)

text \<open>
  C6, amended.  Constructing an adapter with the anchor extension in ClientEncrypt mode
  (enabled, not passthrough) and an empty public key fails: with the dialer's error when
  the dialer cannot be built, otherwise with the error that there is no public key.  In
  RelayPassthrough mode the key is never read: the result of the construction is the
  same whatever key is configured.  (Nothing checks the relay address.)
\<close>

theorem NewVLESS_key_required:
  "(VPPL_Enabled (VPPL options) \<and> \<not> VPPL_Proxy (VPPL options) \<and> VPPL_Key (VPPL options) = []
      \<longrightarrow> NewVLESS env tag' options =
            (case dialer_New env (Dialer_Options options) of
               Inl err \<Rightarrow> Inl err
             | Inr d \<Rightarrow> Inl (E_New ''VPPL: no public key'')))
   \<and> (VPPL_Proxy (VPPL options)
      \<longrightarrow> NewVLESS env tag' (options\<lparr>VPPL := (VPPL options)\<lparr>VPPL_Key := k\<rparr>\<rparr>)
            = NewVLESS env tag' options)"
proof (intro conjI impI)
  assume "VPPL_Enabled (VPPL options) \<and> \<not> VPPL_Proxy (VPPL options) \<and> VPPL_Key (VPPL options) = []"
  then show "NewVLESS env tag' options =
            (case dialer_New env (Dialer_Options options) of
               Inl err \<Rightarrow> Inl err
             | Inr d \<Rightarrow> Inl (E_New ''VPPL: no public key''))"
    by (simp add: NewVLESS_def NewVLESS_vppl_def Let_def split: sum.split)
next
  assume p: "VPPL_Proxy (VPPL options)"
  let ?o = "options\<lparr>VPPL := (VPPL options)\<lparr>VPPL_Key := k\<rparr>\<rparr>"
  have a: "NewVLESS_tls env ?o = NewVLESS_tls env options"
    by (rule ext) (simp add: NewVLESS_tls_def split: option.split sum.split)
  have b: "NewVLESS_transport env ?o = NewVLESS_transport env options"
    by (rule ext) (simp add: NewVLESS_transport_def split: option.split sum.split)
  have c: "NewVLESS_packetEncoding ?o = NewVLESS_packetEncoding options"
    by (rule ext) (simp add: NewVLESS_packetEncoding_def split: option.split)
  have d: "NewVLESS_vppl env ?o = NewVLESS_vppl env options"
    using p by (intro ext NewVLESS_vppl_key_update)
  show "NewVLESS env tag' ?o = NewVLESS env tag' options"
    unfolding NewVLESS_def VLESSServerOptions_Build_def a b c d
    by (simp add: Let_def split: sum.split)
qed

text \<open>
  C6, as stated, fails for the relay address: with a key and an empty relay host, and
  collaborators that succeed, the construction succeeds, with the address parsed from
  the empty host.
\<close>

theorem NewVLESS_accepts_empty_relay_address:
  "VPPL_Enabled (VPPL sample_Options) \<and> \<not> VPPL_Proxy (VPPL sample_Options)
   \<and> VPPL_Host (VPPL sample_Options) = []
   \<and> NewVLESS sample_NewEnv ''out'' sample_Options
       = Inr \<lparr>adapter = \<lparr>protocol = ''vless'', network = [''tcp''], tag = ''out'',
                            dependencies = []\<rparr>,
                dialer = 0, client = Some 0,
                serverAddr = \<lparr>Addr = NoAddr, Port = 443, Fqdn = [0x73]\<rparr>,
                multiplexDialer = None, tlsConfig = None, transport = None,
                packetAddr = False, xudp = True,
                vppl = \<lparr>Enabled = True, Proxy = False,
                         Address = \<lparr>Addr = NoAddr, Port = 0, Fqdn = []\<rparr>,
                         Key = Some (rsa_PublicKey 3233 17)\<rparr>,
                originDest = None\<rparr>"
  by (simp add: NewVLESS_def NewVLESS_vppl_def NewVLESS_tls_def NewVLESS_transport_def
      NewVLESS_packetEncoding_def VLESSServerOptions_Build_def sample_NewEnv_def sample_Options_def)

theorem NewVLESS_key_required_witness:
  "VPPL_Enabled (VPPL (sample_Options\<lparr>VPPL := (VPPL sample_Options)\<lparr>VPPL_Key := []\<rparr>\<rparr>))
   \<and> \<not> VPPL_Proxy (VPPL (sample_Options\<lparr>VPPL := (VPPL sample_Options)\<lparr>VPPL_Key := []\<rparr>\<rparr>))
   \<and> VPPL_Key (VPPL (sample_Options\<lparr>VPPL := (VPPL sample_Options)\<lparr>VPPL_Key := []\<rparr>\<rparr>)) = []
   \<and> NewVLESS sample_NewEnv ''out'' (sample_Options\<lparr>VPPL := (VPPL sample_Options)\<lparr>VPPL_Key := []\<rparr>\<rparr>)
       = Inl (E_New ''VPPL: no public key'')
   \<and> VPPL_Proxy (VPPL (sample_Options\<lparr>VPPL := (VPPL sample_Options)\<lparr>VPPL_Proxy := True\<rparr>\<rparr>))
   \<and> NewVLESS sample_NewEnv ''out''
         (sample_Options\<lparr>VPPL := (VPPL sample_Options)\<lparr>VPPL_Proxy := True, VPPL_Key := []\<rparr>\<rparr>)
       = NewVLESS sample_NewEnv ''out''
           (sample_Options\<lparr>VPPL := (VPPL sample_Options)\<lparr>VPPL_Proxy := True\<rparr>\<rparr>)"
  using NewVLESS_key_required [of "sample_Options\<lparr>VPPL := (VPPL sample_Options)\<lparr>VPPL_Key := []\<rparr>\<rparr>"
          sample_NewEnv "''out''" "[]"]
        NewVLESS_key_required [of "sample_Options\<lparr>VPPL := (VPPL sample_Options)\<lparr>VPPL_Proxy := True\<rparr>\<rparr>"
          sample_NewEnv "''out''" "[]"]
  by (simp add: sample_Options_def sample_NewEnv_def)

text \<open>
  What a successful construction in ClientEncrypt mode establishes: the mode flags, a
  key, no transport, and no obfuscated destination yet.
\<close>

lemma NewVLESS_constructs_ClientEncrypt:
  assumes "NewVLESS env tag' options = Inr h"
    and "VPPL_Enabled (VPPL options)" and "\<not> VPPL_Proxy (VPPL options)"
  shows "Enabled (vppl h) \<and> \<not> Proxy (vppl h) \<and> Key (vppl h) \<noteq> None \<and> transport h = None
         \<and> originDest h = None"
proof -
  from assms(1) obtain d o1 o2 o3 o4 c m where
    d: "dialer_New env (Dialer_Options options) = Inr d"
    and v: "NewVLESS_vppl env options
              \<lparr>adapter = \<lparr>protocol = ''vless'', network = Network_Build env (Network options),
                              tag = tag',
                              dependencies = withDialerDependency env (Dialer_Options options)\<rparr>,
                  dialer = d, client = None,
                  serverAddr = VLESSServerOptions_Build env options,
                  multiplexDialer = None, tlsConfig = None, transport = None,
                  packetAddr = False, xudp = False,
                  vppl = \<lparr>Enabled = False, Proxy = False, Address = Socksaddr_zero, Key = None\<rparr>,
                  originDest = None\<rparr> = Inr o1"
    and t: "NewVLESS_tls env options o1 = Inr o2"
    and tr: "NewVLESS_transport env options o2 = Inr o3"
    and p: "NewVLESS_packetEncoding options o3 = Inr o4"
    and h: "h = o4\<lparr>client := Some c, multiplexDialer := m\<rparr>"
    by (auto simp add: NewVLESS_def Let_def split: sum.splits)
  from v assms(2,3) have 1: "Enabled (vppl o1) \<and> \<not> Proxy (vppl o1) \<and> Key (vppl o1) \<noteq> None
      \<and> transport o1 = None \<and> originDest o1 = None"
    by (auto simp add: NewVLESS_vppl_def Let_def
        split: if_splits option.splits sum.splits any_PublicKey.splits)
  from t have 2: "vppl o2 = vppl o1 \<and> transport o2 = transport o1 \<and> originDest o2 = originDest o1"
    by (auto simp add: NewVLESS_tls_def split: option.splits sum.splits)
  from tr assms(2) have 3: "vppl o3 = vppl o2 \<and> transport o3 = transport o2 \<and> originDest o3 = originDest o2"
    by (auto simp add: NewVLESS_transport_def split: option.splits sum.splits)
  from p have 4: "vppl o4 = vppl o3 \<and> transport o4 = transport o3 \<and> originDest o4 = originDest o3"
    by (auto simp add: NewVLESS_packetEncoding_def split: option.splits if_splits)
  from 1 2 3 4 h show ?thesis by simp
qed

section \<open>Dial orchestration\<close>




subsection \<open>ClientEncrypt mode\<close>













subsection \<open>Address-substitution framing, stream release and the adapter's state\<close>

lemma vlessDialer_connect_calls:
  "snd (vlessDialer_connect env h destination) \<noteq> []
   \<and> closed_conns (snd (vlessDialer_connect env h destination)) = []
   \<and> anchor_handshakes (snd (vlessDialer_connect env h destination)) = []"
  by (auto simp add: vlessDialer_connect_def Let_def split: sum.split)

text \<open>
  C4, amended.  For every UDP dial (and every packet listen) under address-substitution
  framing whose destination is a domain name, the stream is acquired first, with at
  least one call to the transport or the dialer: when that fails, its error is returned;
  when it succeeds, the dial fails with the error that a domain destination is not
  supported, and the protocol client is never called.
\<close>

theorem packetaddr_domain_rejected_after_connect:
  assumes "\<not> xudp h" and "packetAddr h" and "IsFqdn env destination"
    and "NetworkName env network' = ''udp''"
  shows "vlessDialer_DialContext env h network' destination =
           (case vlessDialer_connect env h destination of
              (Inl err, calls) \<Rightarrow> (Inl err, calls)
            | (Inr conn, calls) \<Rightarrow>
                (Inl (E_New ''packetaddr: domain destination is not supported''), calls))
       \<and> vlessDialer_ListenPacket env h destination =
           (case vlessDialer_connect env h destination of
              (Inl err, calls) \<Rightarrow> (Inl err, calls)
            | (Inr conn, calls) \<Rightarrow>
                (Inl (E_New ''packetaddr: domain destination is not supported''), calls))
       \<and> snd (vlessDialer_connect env h destination) \<noteq> []"
  using assms vlessDialer_connect_calls [of env h destination]
  by (simp add: vlessDialer_DialContext_def vlessDialer_ListenPacket_def common_Close_def
      split: prod.split sum.split)

lemma packetaddr_VLESS_connect:
  "vlessDialer_connect sample_DialEnv packetaddr_VLESS sample_domain
     = (Inr (Conn 1), [CallDial sample_Destination])"
  by (simp add: vlessDialer_connect_def packetaddr_VLESS_def sample_VLESS_def sample_DialEnv_def)

text \<open>
  C4, as stated, fails: the rejection of a domain destination under address-substitution
  framing comes after the dialer has opened a stream to the server.
\<close>

theorem packetaddr_domain_rejected_with_stream_open:
  "NetworkName sample_DialEnv ''udp'' = ''udp'' \<and> IsFqdn sample_DialEnv sample_domain
   \<and> packetAddr packetaddr_VLESS \<and> \<not> xudp packetaddr_VLESS
   \<and> vlessDialer_DialContext sample_DialEnv packetaddr_VLESS ''udp'' sample_domain
       = (Inl (E_New ''packetaddr: domain destination is not supported''),
          [CallDial sample_Destination])
   \<and> [CallDial sample_Destination] \<noteq> []"
  by (simp add: vlessDialer_DialContext_def packetaddr_VLESS_connect)
    (simp add: packetaddr_VLESS_def sample_VLESS_def sample_DialEnv_def sample_NetworkName_def
      sample_domain_def)

theorem packetaddr_domain_rejected_after_connect_witness:
  "\<not> xudp packetaddr_VLESS \<and> packetAddr packetaddr_VLESS \<and> IsFqdn sample_DialEnv sample_domain
   \<and> NetworkName sample_DialEnv ''udp4'' = ''udp''
   \<and> vlessDialer_DialContext sample_DialEnv packetaddr_VLESS ''udp4'' sample_domain
       = (Inl (E_New ''packetaddr: domain destination is not supported''),
          [CallDial sample_Destination])
   \<and> vlessDialer_ListenPacket sample_DialEnv packetaddr_VLESS sample_domain
       = (Inl (E_New ''packetaddr: domain destination is not supported''),
          [CallDial sample_Destination])"
proof -
  have a: "\<not> xudp packetaddr_VLESS" and b: "packetAddr packetaddr_VLESS"
    by (simp_all add: packetaddr_VLESS_def sample_VLESS_def)
  have c: "IsFqdn sample_DialEnv sample_domain"
    by (simp add: sample_DialEnv_def sample_domain_def)
  have d: "NetworkName sample_DialEnv ''udp4'' = ''udp''"
    by (simp add: sample_DialEnv_def sample_NetworkName_def)
  from packetaddr_domain_rejected_after_connect [OF a b c d] a b c d show ?thesis
    by (simp add: packetaddr_VLESS_connect)
qed

lemma closed_conns_append: "closed_conns (xs @ ys) = closed_conns xs @ closed_conns ys"
  by (induction xs rule: closed_conns.induct) simp_all

lemma vlessDialer_never_closes:
  "closed_conns (snd (vlessDialer_DialContext env h network' destination)) = []
   \<and> closed_conns (snd (vlessDialer_ListenPacket env h destination)) = []"
  using vlessDialer_connect_calls [of env h destination]
  by (auto simp add: vlessDialer_DialContext_def vlessDialer_ListenPacket_def common_Close_def
      closed_conns_append Let_def split: prod.split sum.split)

text \<open>
  C5 fails on the code.  With a TLS configuration, address-substitution framing and a
  domain destination, the stream is dialed and upgraded, the dial (and the packet listen)
  returns the error, and no call closes the stream.
\<close>

theorem packetaddr_rejection_leaves_stream_open:
  "vlessDialer_DialContext sample_DialEnv tls_packetaddr_VLESS ''udp'' sample_domain
     = (Inl (E_New ''packetaddr: domain destination is not supported''),
        [CallDial sample_Destination, CallTLSHandshake (Conn 1)])
   \<and> vlessDialer_ListenPacket sample_DialEnv tls_packetaddr_VLESS sample_domain
     = (Inl (E_New ''packetaddr: domain destination is not supported''),
        [CallDial sample_Destination, CallTLSHandshake (Conn 1)])
   \<and> closed_conns [CallDial sample_Destination, CallTLSHandshake (Conn 1)] = []"
proof -
  have c: "vlessDialer_connect sample_DialEnv tls_packetaddr_VLESS sample_domain
     = (Inr (Conn 1), [CallDial sample_Destination, CallTLSHandshake (Conn 1)])"
    by (simp add: vlessDialer_connect_def tls_packetaddr_VLESS_def packetaddr_VLESS_def
        sample_VLESS_def sample_DialEnv_def)
  show ?thesis
    by (simp add: vlessDialer_DialContext_def vlessDialer_ListenPacket_def c)
      (simp add: tls_packetaddr_VLESS_def packetaddr_VLESS_def sample_VLESS_def sample_DialEnv_def
        sample_NetworkName_def sample_domain_def)
qed







end
